theory Spec2Isabelle
  imports Main
begin

section \<open>Data model\<close>

text \<open>
  The three script variants \<^verbatim>\<open>base_class.py\<close>, \<^verbatim>\<open>1.py\<close> and \<^verbatim>\<open>3.py\<close> each define a
  class \<^verbatim>\<open>BaseClass\<close> with the same method names. The definitions below keep the method
  names and prefix them by the variant: \<open>bc_\<close> for \<^verbatim>\<open>base_class.py\<close>, \<open>v1_\<close> for
  \<^verbatim>\<open>1.py\<close>, \<open>v3_\<close> for \<^verbatim>\<open>3.py\<close>.
\<close>

text \<open>Exception classes: \<^verbatim>\<open>pywinauto.timings.TimeoutError\<close>, the \<^verbatim>\<open>KeyError\<close> of a
  dictionary lookup, the \<^verbatim>\<open>AttributeError\<close> of a method call on \<^verbatim>\<open>None\<close>, and any other
  exception surfaced by the automation binding.\<close>

datatype exn = TimeoutError | KeyError | AttributeError | DriverError

text \<open>\<^verbatim>\<open>config.json\<close>: the four documented keys; \<open>None\<close> is a key that is absent from the
  document. \<^verbatim>\<open>self.config["k"]\<close> raises \<^verbatim>\<open>KeyError\<close> on an absent key.\<close>

record config =
  application_path :: "string option"
  backend :: "string option"
  default_timeout :: "int option"
  retry_count :: "int option"

text \<open>A locator is the keyword dictionary \<^verbatim>\<open>**locator\<close>. A window specification is what
  \<^verbatim>\<open>desktop.window(...)\<close> and \<^verbatim>\<open>parent.child_window(...)\<close> build: the chain of locators,
  resolved by the driver only when the specification is used.\<close>

type_synonym locator = "(string \<times> string) list"

datatype spec = Window locator | ChildWindow spec locator

datatype level = INFO | WARNING | ERROR

datatype handler = StreamHandler

subsection \<open>The driver boundary: a fake UI tree with a clock\<close>

text \<open>
  The automation driver is an external library. It is modelled by a fake UI tree: what
  the driver observes of a control at each instant, the state that the input primitives
  change, and a record of the primitives that were performed. Time is counted in ticks of
  half a second, the smallest duration that the scripts use.
\<close>

text \<open>The words of the driver's wait string.\<close>

datatype criterion = Exists | Enabled | Visible | Ready

text \<open>What the driver observes of a control: whether it exists, is enabled, is visible.\<close>

record flags =
  f_exists :: bool
  f_enabled :: bool
  f_visible :: bool

text \<open>Inspecting a control either reports its flags or raises (an ambiguous match, a stale
  element, access denied, ...).\<close>

datatype obs = Reports flags | Raises exn

datatype event =
    Start string
  | SetFocus spec
  | ClickInput spec
  | RightClickInput spec
  | TypeKeys spec string
  | Toggle spec
  | Select spec string
  | Expand spec

record state =
  \<comment> \<open>the facade object: \<^verbatim>\<open>self.app\<close> is set, \<^verbatim>\<open>self.main_window\<close>\<close>
  app :: bool
  main_window :: "spec option"
  \<comment> \<open>the process-wide logger \<^verbatim>\<open>WJA_Automation\<close> and the test report\<close>
  handlers :: "handler list"
  logger_level :: level
  records :: "(level \<times> string) list"
  attachments :: "string list"
  \<comment> \<open>the fake UI tree\<close>
  now :: int
  ui :: "spec \<Rightarrow> int \<Rightarrow> obs"
  installed :: "string \<Rightarrow> bool"
  toggle_state :: "spec \<Rightarrow> int"
  three_state :: "spec \<Rightarrow> bool"
  content :: "spec \<Rightarrow> string"
  selected :: "spec \<Rightarrow> bool"
  items :: "spec \<Rightarrow> string list"
  selection :: "spec \<Rightarrow> string"
  expanded :: "spec \<Rightarrow> bool"
  events :: "event list"

subsection \<open>Statements that may raise\<close>

type_synonym 'a io = "state \<Rightarrow> (exn + 'a) \<times> state"

definition ret :: "'a \<Rightarrow> 'a io" where
  "ret x s = (Inr x, s)"

definition raise :: "exn \<Rightarrow> 'a io" where
  "raise e s = (Inl e, s)"

text \<open>Sequencing: the second statement runs only when the first did not raise.\<close>

definition and_then :: "'a io \<Rightarrow> ('a \<Rightarrow> 'b io) \<Rightarrow> 'b io" where
  "and_then m f s = (case m s of (Inl e, s') \<Rightarrow> (Inl e, s') | (Inr x, s') \<Rightarrow> f x s')"

text \<open>\<^verbatim>\<open>try: body  except Exception as e: handler\<close>.\<close>

definition try_except :: "'a io \<Rightarrow> (exn \<Rightarrow> 'a io) \<Rightarrow> 'a io" where
  "try_except body handler s =
     (case body s of (Inl e, s') \<Rightarrow> handler e s' | (Inr x, s') \<Rightarrow> (Inr x, s'))"

text \<open>\<^verbatim>\<open>self.config["k"]\<close>.\<close>

definition lookup :: "'a option \<Rightarrow> 'a io" where
  "lookup v = (case v of None \<Rightarrow> raise KeyError | Some x \<Rightarrow> ret x)"

subsection \<open>Logging\<close>

fun rank :: "level \<Rightarrow> nat" where
  "rank INFO = 20"
| "rank WARNING = 30"
| "rank ERROR = 40"

text \<open>A record is handed to the handlers when its level reaches the logger's level.\<close>

definition emit :: "level \<Rightarrow> string \<Rightarrow> unit io" where
  "emit lvl msg s =
     (Inr (), if rank (logger_level s) \<le> rank lvl
              then s\<lparr>records := records s @ [(lvl, msg)]\<rparr> else s)"

definition logger_info :: "string \<Rightarrow> unit io" where
  "logger_info msg = emit INFO msg"

definition logger_warning :: "string \<Rightarrow> unit io" where
  "logger_warning msg = emit WARNING msg"

definition logger_error :: "string \<Rightarrow> unit io" where
  "logger_error msg = emit ERROR msg"

text \<open>\<^verbatim>\<open>allure.attach(..., name=name, ...)\<close>.\<close>

definition attach :: "string \<Rightarrow> unit io" where
  "attach name s = (Inr (), s\<lparr>attachments := attachments s @ [name]\<rparr>)"

text \<open>\<^verbatim>\<open>_get_logger\<close>, the same in the three variants: a handler is added only when the
  logger has none.\<close>

definition get_logger :: "unit io" where
  "get_logger s =
     (Inr (), s\<lparr>handlers := (if handlers s = [] then [StreamHandler] else handlers s),
                logger_level := INFO\<rparr>)"

subsection \<open>Driver primitives on the fake UI tree\<close>

text \<open>The meaning of the wait criteria as the driver documents them for
  \<^verbatim>\<open>WindowSpecification.wait\<close>: \<^verbatim>\<open>exists\<close> is a valid handle, \<^verbatim>\<open>visible\<close> is not hidden,
  \<^verbatim>\<open>enabled\<close> is not disabled, and \<^verbatim>\<open>ready\<close> is visible and enabled.\<close>

fun holds :: "criterion \<Rightarrow> flags \<Rightarrow> bool" where
  "holds Exists fl = f_exists fl"
| "holds Enabled fl = f_enabled fl"
| "holds Visible fl = f_visible fl"
| "holds Ready fl = (f_visible fl \<and> f_enabled fl)"

definition satisfies :: "criterion list \<Rightarrow> flags \<Rightarrow> bool" where
  "satisfies cs fl = list_all (\<lambda>c. holds c fl) cs"

text \<open>The driver's wait polls the control at every tick from \<open>t\<close> on, \<open>n\<close> more ticks at
  most: it stops at the first tick where the control reports every requested flag, raises
  what the inspection raises, and raises \<^verbatim>\<open>TimeoutError\<close> when the ticks are used up.\<close>

fun poll :: "(int \<Rightarrow> obs) \<Rightarrow> criterion list \<Rightarrow> int \<Rightarrow> nat \<Rightarrow> exn option \<times> int" where
  "poll line cs t 0 =
     (case line t of
        Raises e \<Rightarrow> (Some e, t)
      | Reports fl \<Rightarrow> if satisfies cs fl then (None, t) else (Some TimeoutError, t))"
| "poll line cs t (Suc n) =
     (case line t of
        Raises e \<Rightarrow> (Some e, t)
      | Reports fl \<Rightarrow> if satisfies cs fl then (None, t) else poll line cs (t + 1) n)"

text \<open>\<^verbatim>\<open>element.wait(criteria, timeout=seconds)\<close>.\<close>

definition wait :: "criterion list \<Rightarrow> int \<Rightarrow> spec \<Rightarrow> unit io" where
  "wait cs seconds h s =
     (case poll (ui s h) cs (now s) (nat (2 * seconds)) of
        (None, t) \<Rightarrow> (Inr (), s\<lparr>now := t\<rparr>)
      | (Some e, t) \<Rightarrow> (Inl e, s\<lparr>now := t\<rparr>))"

text \<open>\<^verbatim>\<open>time.sleep\<close>, in ticks.\<close>

definition sleep :: "nat \<Rightarrow> unit io" where
  "sleep ticks s = (Inr (), s\<lparr>now := now s + int ticks\<rparr>)"

text \<open>An input primitive acts on a control that exists at the present instant and is
  recorded; otherwise it raises.\<close>

definition perform :: "spec \<Rightarrow> event \<Rightarrow> (state \<Rightarrow> state) \<Rightarrow> unit io" where
  "perform h ev upd s =
     (case ui s h (now s) of
        Raises e \<Rightarrow> (Inl e, s)
      | Reports fl \<Rightarrow>
          if f_exists fl then (Inr (), upd (s\<lparr>events := events s @ [ev]\<rparr>))
          else (Inl DriverError, s))"

definition set_focus :: "spec \<Rightarrow> unit io" where
  "set_focus h = perform h (SetFocus h) (\<lambda>s. s)"

definition click_input :: "spec \<Rightarrow> unit io" where
  "click_input h = perform h (ClickInput h) (\<lambda>s. s)"

definition right_click_input :: "spec \<Rightarrow> unit io" where
  "right_click_input h = perform h (RightClickInput h) (\<lambda>s. s)"

text \<open>\<^verbatim>\<open>app.start(path)\<close>.\<close>

definition start :: "string \<Rightarrow> unit io" where
  "start path s =
     (if installed s path then (Inr (), s\<lparr>events := events s @ [Start path]\<rparr>)
      else (Inl DriverError, s))"

text \<open>A query reads the fake UI tree for a control that exists at the present instant.\<close>

definition query :: "spec \<Rightarrow> (state \<Rightarrow> 'a) \<Rightarrow> 'a io" where
  "query h f s =
     (case ui s h (now s) of
        Raises e \<Rightarrow> (Inl e, s)
      | Reports fl \<Rightarrow> if f_exists fl then (Inr (f s), s) else (Inl DriverError, s))"

text \<open>\<^verbatim>\<open>type_keys\<close> reads its argument as a key sequence, which is how the scripts clear
  a field with \<^verbatim>\<open>^a{BACKSPACE}\<close>. The fake interprets the two key codes that the scripts
  send, \<^verbatim>\<open>^a\<close> (select all) and \<^verbatim>\<open>{BACKSPACE}\<close>, and types every other character; a typed
  character replaces the selection, and a space is typed only under
  \<^verbatim>\<open>with_spaces=True\<close>. The driver's syntax has more key codes (the modifiers
  \<^verbatim>\<open>+\<close> and \<^verbatim>\<open>%\<close>, \<^verbatim>\<open>~\<close> for Enter, parentheses, other names in braces), which the fake
  types as characters: what is stated about a typed text is stated for texts without any
  of these characters. The state of a field is its text and whether all of it is
  selected.\<close>

fun strip_prefix :: "string \<Rightarrow> string \<Rightarrow> string option" where
  "strip_prefix [] ys = Some ys"
| "strip_prefix (x # xs) [] = None"
| "strip_prefix (x # xs) (y # ys) = (if x = y then strip_prefix xs ys else None)"

lemma strip_prefix_length:
  "strip_prefix xs ys = Some rest \<Longrightarrow> length ys = length xs + length rest"
  by (induction xs ys rule: strip_prefix.induct) (auto split: if_splits)

function press :: "bool \<Rightarrow> string \<Rightarrow> string \<times> bool \<Rightarrow> string \<times> bool" where
  "press with_spaces keys field =
     (case keys of
        [] \<Rightarrow> field
      | c # cs \<Rightarrow>
          (case strip_prefix ''^a'' keys of
             Some rest \<Rightarrow> press with_spaces rest (fst field, True)
           | None \<Rightarrow>
               (case strip_prefix ''{BACKSPACE}'' keys of
                  Some rest \<Rightarrow>
                    press with_spaces rest
                      (if snd field then [] else butlast (fst field), False)
                | None \<Rightarrow>
                    if c = CHR '' '' \<and> \<not> with_spaces then press with_spaces cs field
                    else press with_spaces cs
                           ((if snd field then [] else fst field) @ [c], False))))"
  by pat_completeness auto
termination
  by (relation "measure (\<lambda>(with_spaces, keys, field). length keys)")
     (auto simp del: strip_prefix.simps dest!: strip_prefix_length)

definition type_keys :: "spec \<Rightarrow> string \<Rightarrow> bool \<Rightarrow> unit io" where
  "type_keys h keys with_spaces =
     perform h (TypeKeys h keys)
       (\<lambda>s. let field = press with_spaces keys (content s h, selected s h)
            in s\<lparr>content := (content s)(h := fst field),
                 selected := (selected s)(h := snd field)\<rparr>)"

text \<open>The toggle pattern cycles off (0), on (1) and, for a three-state checkbox,
  indeterminate (2).\<close>

definition next_toggle_state :: "bool \<Rightarrow> int \<Rightarrow> int" where
  "next_toggle_state three st =
     (if st = 0 then 1 else if st = 1 then (if three then 2 else 0) else 0)"

definition get_toggle_state :: "spec \<Rightarrow> int io" where
  "get_toggle_state h = query h (\<lambda>s. toggle_state s h)"

definition toggle :: "spec \<Rightarrow> unit io" where
  "toggle h =
     perform h (Toggle h)
       (\<lambda>s. s\<lparr>toggle_state :=
                 (toggle_state s)(h := next_toggle_state (three_state s h) (toggle_state s h))\<rparr>)"

text \<open>\<^verbatim>\<open>combobox.select(value)\<close> raises when the combo box has no such item.\<close>

definition select :: "spec \<Rightarrow> string \<Rightarrow> unit io" where
  "select h v s =
     (if v \<in> set (items s h)
      then perform h (Select h v) (\<lambda>s. s\<lparr>selection := (selection s)(h := v)\<rparr>) s
      else (Inl DriverError, s))"

definition is_expanded :: "spec \<Rightarrow> bool io" where
  "is_expanded h = query h (\<lambda>s. expanded s h)"

definition expand :: "spec \<Rightarrow> unit io" where
  "expand h = perform h (Expand h) (\<lambda>s. s\<lparr>expanded := (expanded s)(h := True)\<rparr>)"

text \<open>Assignments to the fields of the facade object.\<close>

definition set_app :: "unit io" where
  "set_app s = (Inr (), s\<lparr>app := True\<rparr>)"

definition set_main_window :: "spec \<Rightarrow> unit io" where
  "set_main_window w s = (Inr (), s\<lparr>main_window := Some w\<rparr>)"

text \<open>Reading \<^verbatim>\<open>self.main_window\<close> for a method call: the field is \<^verbatim>\<open>None\<close> until the
  application is launched or connected, and a method call on \<^verbatim>\<open>None\<close> raises
  \<^verbatim>\<open>AttributeError\<close>.\<close>

definition get_main_window :: "spec io" where
  "get_main_window s =
     (case main_window s of None \<Rightarrow> (Inl AttributeError, s) | Some w \<Rightarrow> (Inr w, s))"

text \<open>\<^verbatim>\<open>self.desktop.window(title_re=".*Web Jetadmin.*")\<close>.\<close>

definition web_jetadmin :: spec where
  "web_jetadmin = Window [(''title_re'', ''.*Web Jetadmin.*'')]"

section \<open>wait_for_element\<close>

text \<open>\<^verbatim>\<open>base_class.py\<close>, lines 49 to 58.\<close>

definition bc_wait_for_element_try :: "config \<Rightarrow> spec \<Rightarrow> locator \<Rightarrow> spec io" where
  "bc_wait_for_element_try cfg parent locator =
     and_then (logger_info ''Waiting for element'') (\<lambda>_.
     let element = ChildWindow parent locator in
     and_then (lookup (default_timeout cfg)) (\<lambda>timeout.
     and_then (wait [Exists, Enabled, Visible, Ready] timeout element) (\<lambda>_.
     and_then (logger_info ''Element found'') (\<lambda>_.
     ret element))))"

definition bc_wait_for_element :: "config \<Rightarrow> spec \<Rightarrow> locator \<Rightarrow> spec io" where
  "bc_wait_for_element cfg parent locator =
     try_except (bc_wait_for_element_try cfg parent locator)
       (\<lambda>e. and_then (logger_error ''Element not found'') (\<lambda>_. raise e))"

text \<open>\<^verbatim>\<open>1.py\<close>, lines 54 to 69. \<^verbatim>\<open>timeout or self.config["default_timeout"]\<close> reads the
  configuration when the argument is \<^verbatim>\<open>None\<close> or \<open>0\<close>, before the \<^verbatim>\<open>try\<close>.\<close>

definition v1_wait_for_element_try :: "locator \<Rightarrow> int \<Rightarrow> spec io" where
  "v1_wait_for_element_try locator timeout =
     and_then get_main_window (\<lambda>main.
     let ctrl = ChildWindow main locator in
     and_then (wait [Exists, Enabled, Visible, Ready] timeout ctrl) (\<lambda>_.
     and_then (logger_info ''Element found'') (\<lambda>_.
     ret ctrl)))"

definition v1_wait_for_element :: "config \<Rightarrow> locator \<Rightarrow> int option \<Rightarrow> spec io" where
  "v1_wait_for_element cfg locator timeout =
     and_then (case timeout of
                 None \<Rightarrow> lookup (default_timeout cfg)
               | Some t \<Rightarrow> if t = 0 then lookup (default_timeout cfg) else ret t) (\<lambda>timeout.
     try_except (v1_wait_for_element_try locator timeout)
       (\<lambda>e. if e = TimeoutError
            then and_then (logger_error ''Timeout waiting for element'') (\<lambda>_.
                 and_then (attach ''Wait Timeout'') (\<lambda>_. raise e))
            else and_then (logger_error ''Error waiting for element'') (\<lambda>_.
                 and_then (attach ''Wait Error'') (\<lambda>_. raise e))))"

text \<open>\<^verbatim>\<open>3.py\<close>, lines 53 to 64. The \<^verbatim>\<open>while\<close> loop: each attempt is a one-second wait;
  whatever it raises is swallowed and followed by a sleep of half a second. The loop
  yields the element, or \<open>None\<close> when the deadline has passed.\<close>

function v3_wait_loop :: "spec \<Rightarrow> locator \<Rightarrow> int \<Rightarrow> state \<Rightarrow> spec option \<times> state" where
  "v3_wait_loop parent locator end_time s =
     (if now s < end_time then
        (let element = ChildWindow parent locator;
             r = wait [Exists, Ready, Visible] 1 element s
         in if isl (fst r) then v3_wait_loop parent locator end_time (snd (sleep 1 (snd r)))
            else (Some element, snd r))
      else (None, s))"
  by pat_completeness auto

lemma poll_time_mono: "t \<le> snd (poll line cs t n)"
proof (induction n arbitrary: t)
  case 0
  show ?case by (simp split: obs.split)
next
  case (Suc n)
  have "t \<le> t + 1" by simp
  also have "t + 1 \<le> snd (poll line cs (t + 1) n)" by (rule Suc.IH)
  finally show ?case by (simp split: obs.split)
qed

lemma wait_now_mono: "now s \<le> now (snd (wait cs seconds h s))"
  using poll_time_mono [of "now s" "ui s h" cs "nat (2 * seconds)"]
  by (auto simp: wait_def split: prod.split option.split)

termination v3_wait_loop
proof (relation "measure (\<lambda>(parent, locator, end_time, s). nat (end_time - now s))")
  show "wf (measure (\<lambda>(parent, locator, end_time, s). nat (end_time - now s)))" by simp
next
  fix parent :: spec and locator :: locator and end_time :: int and s :: state
  fix x xa
  assume "now s < end_time" and x: "x = ChildWindow parent locator"
    and xa: "xa = wait [Exists, Ready, Visible] 1 x s"
  have "now s \<le> now (snd xa)" unfolding xa by (rule wait_now_mono)
  with \<open>now s < end_time\<close>
  show "((parent, locator, end_time, snd (sleep 1 (snd xa))), parent, locator, end_time, s)
        \<in> measure (\<lambda>(parent, locator, end_time, s). nat (end_time - now s))"
    by (simp add: sleep_def)
qed

text \<open>\<^verbatim>\<open>self.config.get("default_timeout", 20)\<close> substitutes 20 for an absent key.\<close>

definition v3_wait_for_element :: "config \<Rightarrow> spec \<Rightarrow> locator \<Rightarrow> spec io" where
  "v3_wait_for_element cfg parent locator s =
     (let timeout = (case default_timeout cfg of None \<Rightarrow> 20 | Some t \<Rightarrow> t);
          end_time = now s + 2 * timeout
      in case v3_wait_loop parent locator end_time s of
           (Some element, s') \<Rightarrow> (Inr element, s')
         | (None, s') \<Rightarrow>
             and_then (logger_error ''Element not found within timeout'') (\<lambda>_.
               raise TimeoutError) s')"

section \<open>The facade of base_class.py\<close>

text \<open>\<^verbatim>\<open>__init__\<close>: both driver objects read \<^verbatim>\<open>config["backend"]\<close>; the logger is set up
  last.\<close>

definition bc_init :: "config \<Rightarrow> unit io" where
  "bc_init cfg =
     and_then (lookup (backend cfg)) (\<lambda>_.
     and_then (lookup (backend cfg)) (\<lambda>_.
     and_then (\<lambda>s. (Inr (), s\<lparr>app := True, main_window := None\<rparr>)) (\<lambda>_.
     get_logger)))"

definition bc_launch_application_try :: "config \<Rightarrow> unit io" where
  "bc_launch_application_try cfg =
     and_then (logger_info ''Launching HP Web Jetadmin application...'') (\<lambda>_.
     and_then (lookup (application_path cfg)) (\<lambda>path.
     and_then (start path) (\<lambda>_.
     and_then (set_main_window web_jetadmin) (\<lambda>_.
     and_then (lookup (default_timeout cfg)) (\<lambda>timeout.
     and_then (wait [Visible] timeout web_jetadmin) (\<lambda>_.
     and_then (set_focus web_jetadmin) (\<lambda>_.
     logger_info ''Application launched and main window focused.'')))))))"

definition bc_launch_application :: "config \<Rightarrow> unit io" where
  "bc_launch_application cfg =
     try_except (bc_launch_application_try cfg)
       (\<lambda>e. and_then (logger_error ''Failed to launch application'') (\<lambda>_. raise e))"

definition bc_connect_to_main_window_try :: "config \<Rightarrow> unit io" where
  "bc_connect_to_main_window_try cfg =
     and_then (set_main_window web_jetadmin) (\<lambda>_.
     and_then (lookup (default_timeout cfg)) (\<lambda>timeout.
     and_then (wait [Visible] timeout web_jetadmin) (\<lambda>_.
     and_then (set_focus web_jetadmin) (\<lambda>_.
     logger_info ''Connected to main window.''))))"

definition bc_connect_to_main_window :: "config \<Rightarrow> unit io" where
  "bc_connect_to_main_window cfg =
     try_except (bc_connect_to_main_window_try cfg)
       (\<lambda>e. and_then (logger_error ''Failed to connect to main window'') (\<lambda>_. raise e))"

definition bc_click_element_try :: "config \<Rightarrow> spec \<Rightarrow> locator \<Rightarrow> unit io" where
  "bc_click_element_try cfg parent locator =
     and_then (bc_wait_for_element cfg parent locator) (\<lambda>element.
     and_then (set_focus element) (\<lambda>_.
     and_then (click_input element) (\<lambda>_.
     logger_info ''Clicked element'')))"

definition bc_click_element :: "config \<Rightarrow> spec \<Rightarrow> locator \<Rightarrow> unit io" where
  "bc_click_element cfg parent locator =
     try_except (bc_click_element_try cfg parent locator)
       (\<lambda>e. and_then (logger_error ''Failed to click element'') (\<lambda>_. raise e))"

definition bc_enter_text_try :: "config \<Rightarrow> spec \<Rightarrow> string \<Rightarrow> locator \<Rightarrow> unit io" where
  "bc_enter_text_try cfg parent text locator =
     and_then (bc_wait_for_element cfg parent locator) (\<lambda>element.
     and_then (set_focus element) (\<lambda>_.
     and_then (type_keys element text True) (\<lambda>_.
     logger_info ''Entered text in element'')))"

definition bc_enter_text :: "config \<Rightarrow> spec \<Rightarrow> string \<Rightarrow> locator \<Rightarrow> unit io" where
  "bc_enter_text cfg parent text locator =
     try_except (bc_enter_text_try cfg parent text locator)
       (\<lambda>e. and_then (logger_error ''Failed to enter text in element'') (\<lambda>_. raise e))"

definition bc_right_click_element_try :: "config \<Rightarrow> spec \<Rightarrow> locator \<Rightarrow> unit io" where
  "bc_right_click_element_try cfg parent locator =
     and_then (bc_wait_for_element cfg parent locator) (\<lambda>element.
     and_then (set_focus element) (\<lambda>_.
     and_then (right_click_input element) (\<lambda>_.
     logger_info ''Right-clicked element'')))"

definition bc_right_click_element :: "config \<Rightarrow> spec \<Rightarrow> locator \<Rightarrow> unit io" where
  "bc_right_click_element cfg parent locator =
     try_except (bc_right_click_element_try cfg parent locator)
       (\<lambda>e. and_then (logger_error ''Failed to right-click element'') (\<lambda>_. raise e))"

definition bc_select_context_menu_try :: "config \<Rightarrow> string \<Rightarrow> unit io" where
  "bc_select_context_menu_try cfg menu_title =
     (let menu = Window [(''control_type'', ''Menu'')] in
      and_then (bc_wait_for_element cfg menu
                  [(''title'', menu_title), (''control_type'', ''MenuItem'')]) (\<lambda>item.
      and_then (click_input item) (\<lambda>_.
      logger_info ''Selected context menu item'')))"

definition bc_select_context_menu :: "config \<Rightarrow> string \<Rightarrow> unit io" where
  "bc_select_context_menu cfg menu_title =
     try_except (bc_select_context_menu_try cfg menu_title)
       (\<lambda>e. and_then (logger_error ''Failed to select context menu item'') (\<lambda>_. raise e))"

definition bc_wizard_next_try :: "config \<Rightarrow> spec \<Rightarrow> unit io" where
  "bc_wizard_next_try cfg wizard_window =
     and_then (bc_wait_for_element cfg wizard_window
                 [(''title'', ''Next''), (''control_type'', ''Button'')]) (\<lambda>next_btn.
     and_then (click_input next_btn) (\<lambda>_.
     logger_info ''Clicked Next in wizard.''))"

definition bc_wizard_next :: "config \<Rightarrow> spec \<Rightarrow> unit io" where
  "bc_wizard_next cfg wizard_window =
     try_except (bc_wizard_next_try cfg wizard_window)
       (\<lambda>e. and_then (logger_error ''Failed to click Next in wizard'') (\<lambda>_. raise e))"

definition bc_wizard_finish_try :: "config \<Rightarrow> spec \<Rightarrow> unit io" where
  "bc_wizard_finish_try cfg wizard_window =
     and_then (bc_wait_for_element cfg wizard_window
                 [(''title'', ''Finish''), (''control_type'', ''Button'')]) (\<lambda>finish_btn.
     and_then (click_input finish_btn) (\<lambda>_.
     logger_info ''Clicked Finish in wizard.''))"

definition bc_wizard_finish :: "config \<Rightarrow> spec \<Rightarrow> unit io" where
  "bc_wizard_finish cfg wizard_window =
     try_except (bc_wizard_finish_try cfg wizard_window)
       (\<lambda>e. and_then (logger_error ''Failed to click Finish in wizard'') (\<lambda>_. raise e))"

text \<open>\<^verbatim>\<open>bring_window_to_front\<close>, lines 119 to 124: the handler logs a warning and does not
  raise.\<close>

definition bc_bring_window_to_front_try :: "spec \<Rightarrow> unit io" where
  "bc_bring_window_to_front_try window =
     and_then (set_focus window) (\<lambda>_.
     logger_info ''Window brought to front.'')"

definition bc_bring_window_to_front :: "spec \<Rightarrow> unit io" where
  "bc_bring_window_to_front window =
     try_except (bc_bring_window_to_front_try window)
       (\<lambda>e. logger_warning ''Failed to bring window to front'')"

section \<open>The facade of 1.py\<close>

definition v1_init :: "config \<Rightarrow> unit io" where
  "v1_init cfg =
     and_then (lookup (backend cfg)) (\<lambda>_.
     and_then (\<lambda>s. (Inr (), s\<lparr>app := False, main_window := None\<rparr>)) (\<lambda>_.
     get_logger))"

definition v1_launch_application_try :: "config \<Rightarrow> unit io" where
  "v1_launch_application_try cfg =
     and_then (lookup (application_path cfg)) (\<lambda>_.
     and_then (logger_info ''Launching application'') (\<lambda>_.
     and_then (lookup (backend cfg)) (\<lambda>_.
     and_then (lookup (application_path cfg)) (\<lambda>path.
     and_then (start path) (\<lambda>_.
     and_then set_app (\<lambda>_.
     and_then (set_main_window web_jetadmin) (\<lambda>_.
     and_then (lookup (default_timeout cfg)) (\<lambda>timeout.
     and_then (wait [Visible] timeout web_jetadmin) (\<lambda>_.
     and_then (set_focus web_jetadmin) (\<lambda>_.
     logger_info ''Application launched and main window focused.''))))))))))"

definition v1_launch_application :: "config \<Rightarrow> unit io" where
  "v1_launch_application cfg =
     try_except (v1_launch_application_try cfg)
       (\<lambda>e. and_then (logger_error ''Failed to launch application'') (\<lambda>_.
            and_then (attach ''Launch Error'') (\<lambda>_. raise e)))"

definition v1_connect_to_main_window_try :: "config \<Rightarrow> unit io" where
  "v1_connect_to_main_window_try cfg =
     and_then (set_main_window web_jetadmin) (\<lambda>_.
     and_then (lookup (default_timeout cfg)) (\<lambda>timeout.
     and_then (wait [Visible] timeout web_jetadmin) (\<lambda>_.
     and_then (set_focus web_jetadmin) (\<lambda>_.
     logger_info ''Connected to main window.''))))"

definition v1_connect_to_main_window :: "config \<Rightarrow> unit io" where
  "v1_connect_to_main_window cfg =
     try_except (v1_connect_to_main_window_try cfg)
       (\<lambda>e. and_then (logger_error ''Failed to connect to main window'') (\<lambda>_.
            and_then (attach ''Connect Error'') (\<lambda>_. raise e)))"

definition v1_click_element_try :: "config \<Rightarrow> locator \<Rightarrow> unit io" where
  "v1_click_element_try cfg locator =
     and_then (v1_wait_for_element cfg locator None) (\<lambda>ctrl.
     and_then (set_focus ctrl) (\<lambda>_.
     and_then (click_input ctrl) (\<lambda>_.
     logger_info ''Clicked element'')))"

definition v1_click_element :: "config \<Rightarrow> locator \<Rightarrow> unit io" where
  "v1_click_element cfg locator =
     try_except (v1_click_element_try cfg locator)
       (\<lambda>e. and_then (logger_error ''Failed to click element'') (\<lambda>_.
            and_then (attach ''Click Error'') (\<lambda>_. raise e)))"

definition v1_enter_text_try :: "config \<Rightarrow> locator \<Rightarrow> string \<Rightarrow> bool \<Rightarrow> unit io" where
  "v1_enter_text_try cfg locator text clear =
     and_then (v1_wait_for_element cfg locator None) (\<lambda>ctrl.
     and_then (set_focus ctrl) (\<lambda>_.
     and_then (if clear then type_keys ctrl ''^a{BACKSPACE}'' False else ret ()) (\<lambda>_.
     and_then (type_keys ctrl text True) (\<lambda>_.
     logger_info ''Entered text into element''))))"

definition v1_enter_text :: "config \<Rightarrow> locator \<Rightarrow> string \<Rightarrow> bool \<Rightarrow> unit io" where
  "v1_enter_text cfg locator text clear =
     try_except (v1_enter_text_try cfg locator text clear)
       (\<lambda>e. and_then (logger_error ''Failed to enter text into element'') (\<lambda>_.
            and_then (attach ''Enter Text Error'') (\<lambda>_. raise e)))"

definition v1_expand_tree_item_try :: "config \<Rightarrow> locator \<Rightarrow> unit io" where
  "v1_expand_tree_item_try cfg locator =
     and_then (v1_wait_for_element cfg locator None) (\<lambda>ctrl.
     and_then (is_expanded ctrl) (\<lambda>is_open.
     and_then (if \<not> is_open then expand ctrl else ret ()) (\<lambda>_.
     logger_info ''Expanded tree item'')))"

definition v1_expand_tree_item :: "config \<Rightarrow> locator \<Rightarrow> unit io" where
  "v1_expand_tree_item cfg locator =
     try_except (v1_expand_tree_item_try cfg locator)
       (\<lambda>e. and_then (logger_error ''Failed to expand tree item'') (\<lambda>_.
            and_then (attach ''Expand Error'') (\<lambda>_. raise e)))"

definition v1_right_click_element_try :: "config \<Rightarrow> locator \<Rightarrow> unit io" where
  "v1_right_click_element_try cfg locator =
     and_then (v1_wait_for_element cfg locator None) (\<lambda>ctrl.
     and_then (set_focus ctrl) (\<lambda>_.
     and_then (right_click_input ctrl) (\<lambda>_.
     logger_info ''Right-clicked element'')))"

definition v1_right_click_element :: "config \<Rightarrow> locator \<Rightarrow> unit io" where
  "v1_right_click_element cfg locator =
     try_except (v1_right_click_element_try cfg locator)
       (\<lambda>e. and_then (logger_error ''Failed to right-click element'') (\<lambda>_.
            and_then (attach ''Right Click Error'') (\<lambda>_. raise e)))"

section \<open>The facade of 3.py\<close>

definition v3_init :: "config \<Rightarrow> unit io" where
  "v3_init cfg =
     and_then (lookup (backend cfg)) (\<lambda>_.
     and_then (\<lambda>s. (Inr (), s\<lparr>app := False, main_window := None\<rparr>)) (\<lambda>_.
     get_logger))"

text \<open>\<^verbatim>\<open>connect_to_main_window\<close> returns the window; both handlers log an error and
  raise.\<close>

definition v3_connect_to_main_window_try :: "config \<Rightarrow> spec io" where
  "v3_connect_to_main_window_try cfg =
     and_then (logger_info ''Connecting to main window...'') (\<lambda>_.
     let window = web_jetadmin in
     and_then (lookup (default_timeout cfg)) (\<lambda>timeout.
     and_then (wait [Visible] timeout window) (\<lambda>_.
     and_then (set_focus window) (\<lambda>_.
     ret window))))"

definition v3_connect_to_main_window :: "config \<Rightarrow> spec io" where
  "v3_connect_to_main_window cfg =
     try_except (v3_connect_to_main_window_try cfg)
       (\<lambda>e. if e = TimeoutError
            then and_then (logger_error ''Main window not found within timeout.'') (\<lambda>_.
                   raise e)
            else and_then (logger_error ''Error connecting to main window'') (\<lambda>_.
                   raise e))"

definition v3_launch_application_try :: "config \<Rightarrow> unit io" where
  "v3_launch_application_try cfg =
     and_then (logger_info ''Launching HP Web Jetadmin...'') (\<lambda>_.
     and_then (lookup (backend cfg)) (\<lambda>_.
     and_then (lookup (application_path cfg)) (\<lambda>path.
     and_then (start path) (\<lambda>_.
     and_then set_app (\<lambda>_.
     and_then (v3_connect_to_main_window cfg) (\<lambda>window.
     and_then (set_main_window window) (\<lambda>_.
     logger_info ''Application launched and main window connected.'')))))))"

definition v3_launch_application :: "config \<Rightarrow> unit io" where
  "v3_launch_application cfg =
     try_except (v3_launch_application_try cfg)
       (\<lambda>e. and_then (logger_error ''Failed to launch application'') (\<lambda>_. raise e))"

definition v3_click_element_try :: "config \<Rightarrow> spec \<Rightarrow> locator \<Rightarrow> unit io" where
  "v3_click_element_try cfg parent locator =
     and_then (v3_wait_for_element cfg parent locator) (\<lambda>element.
     and_then (set_focus element) (\<lambda>_.
     and_then (click_input element) (\<lambda>_.
     logger_info ''Clicked element'')))"

definition v3_click_element :: "config \<Rightarrow> spec \<Rightarrow> locator \<Rightarrow> unit io" where
  "v3_click_element cfg parent locator =
     try_except (v3_click_element_try cfg parent locator)
       (\<lambda>e. and_then (logger_error ''Failed to click element'') (\<lambda>_. raise e))"

definition v3_enter_text_try :: "config \<Rightarrow> spec \<Rightarrow> string \<Rightarrow> locator \<Rightarrow> unit io" where
  "v3_enter_text_try cfg parent text locator =
     and_then (v3_wait_for_element cfg parent locator) (\<lambda>element.
     and_then (set_focus element) (\<lambda>_.
     and_then (type_keys element ''^a{BACKSPACE}'' False) (\<lambda>_.
     and_then (type_keys element text True) (\<lambda>_.
     logger_info ''Entered text in element''))))"

definition v3_enter_text :: "config \<Rightarrow> spec \<Rightarrow> string \<Rightarrow> locator \<Rightarrow> unit io" where
  "v3_enter_text cfg parent text locator =
     try_except (v3_enter_text_try cfg parent text locator)
       (\<lambda>e. and_then (logger_error ''Failed to enter text in element'') (\<lambda>_. raise e))"

text \<open>\<^verbatim>\<open>set_checkbox\<close>, lines 87 to 99.\<close>

definition v3_set_checkbox_try :: "config \<Rightarrow> spec \<Rightarrow> bool \<Rightarrow> locator \<Rightarrow> unit io" where
  "v3_set_checkbox_try cfg parent check locator =
     and_then (v3_wait_for_element cfg parent locator) (\<lambda>element.
     and_then (set_focus element) (\<lambda>_.
     and_then (get_toggle_state element) (\<lambda>current.
     if (check \<and> current = 0) \<or> (\<not> check \<and> current = 1)
     then and_then (toggle element) (\<lambda>_.
            logger_info (if check then ''Checkbox set to checked.''
                         else ''Checkbox set to unchecked.''))
     else logger_info ''Checkbox already in desired state.'')))"

definition v3_set_checkbox :: "config \<Rightarrow> spec \<Rightarrow> bool \<Rightarrow> locator \<Rightarrow> unit io" where
  "v3_set_checkbox cfg parent check locator =
     try_except (v3_set_checkbox_try cfg parent check locator)
       (\<lambda>e. and_then (logger_error ''Failed to set checkbox'') (\<lambda>_. raise e))"

definition v3_select_combobox_try :: "config \<Rightarrow> spec \<Rightarrow> string \<Rightarrow> locator \<Rightarrow> unit io" where
  "v3_select_combobox_try cfg parent v locator =
     and_then (v3_wait_for_element cfg parent locator) (\<lambda>combobox.
     and_then (set_focus combobox) (\<lambda>_.
     and_then (select combobox v) (\<lambda>_.
     logger_info ''Selected value in combobox'')))"

definition v3_select_combobox :: "config \<Rightarrow> spec \<Rightarrow> string \<Rightarrow> locator \<Rightarrow> unit io" where
  "v3_select_combobox cfg parent v locator =
     try_except (v3_select_combobox_try cfg parent v locator)
       (\<lambda>e. and_then (logger_error ''Failed to select value in combobox'') (\<lambda>_. raise e))"

section \<open>One call of a facade operation\<close>

text \<open>The methods of the three classes, with their arguments. What a call returns is
  nothing or a control.\<close>

datatype result = Nothing | Control spec

datatype call =
    BC_init
  | BC_launch_application
  | BC_connect_to_main_window
  | BC_wait_for_element spec locator
  | BC_click_element spec locator
  | BC_enter_text spec string locator
  | BC_right_click_element spec locator
  | BC_select_context_menu string
  | BC_wizard_next spec
  | BC_wizard_finish spec
  | BC_bring_window_to_front spec
  | V1_init
  | V1_launch_application
  | V1_connect_to_main_window
  | V1_wait_for_element locator "int option"
  | V1_click_element locator
  | V1_enter_text locator string bool
  | V1_expand_tree_item locator
  | V1_right_click_element locator
  | V3_init
  | V3_launch_application
  | V3_connect_to_main_window
  | V3_wait_for_element spec locator
  | V3_click_element spec locator
  | V3_enter_text spec string locator
  | V3_set_checkbox spec bool locator
  | V3_select_combobox spec string locator

definition void :: "unit io \<Rightarrow> result io" where
  "void m = and_then m (\<lambda>_. ret Nothing)"

definition control :: "spec io \<Rightarrow> result io" where
  "control m = and_then m (\<lambda>c. ret (Control c))"

fun run :: "config \<Rightarrow> call \<Rightarrow> result io" where
  "run cfg BC_init = void (bc_init cfg)"
| "run cfg BC_launch_application = void (bc_launch_application cfg)"
| "run cfg BC_connect_to_main_window = void (bc_connect_to_main_window cfg)"
| "run cfg (BC_wait_for_element parent locator) =
     control (bc_wait_for_element cfg parent locator)"
| "run cfg (BC_click_element parent locator) = void (bc_click_element cfg parent locator)"
| "run cfg (BC_enter_text parent text locator) =
     void (bc_enter_text cfg parent text locator)"
| "run cfg (BC_right_click_element parent locator) =
     void (bc_right_click_element cfg parent locator)"
| "run cfg (BC_select_context_menu menu_title) =
     void (bc_select_context_menu cfg menu_title)"
| "run cfg (BC_wizard_next wizard_window) = void (bc_wizard_next cfg wizard_window)"
| "run cfg (BC_wizard_finish wizard_window) = void (bc_wizard_finish cfg wizard_window)"
| "run cfg (BC_bring_window_to_front window) = void (bc_bring_window_to_front window)"
| "run cfg V1_init = void (v1_init cfg)"
| "run cfg V1_launch_application = void (v1_launch_application cfg)"
| "run cfg V1_connect_to_main_window = void (v1_connect_to_main_window cfg)"
| "run cfg (V1_wait_for_element locator timeout) =
     control (v1_wait_for_element cfg locator timeout)"
| "run cfg (V1_click_element locator) = void (v1_click_element cfg locator)"
| "run cfg (V1_enter_text locator text clear) =
     void (v1_enter_text cfg locator text clear)"
| "run cfg (V1_expand_tree_item locator) = void (v1_expand_tree_item cfg locator)"
| "run cfg (V1_right_click_element locator) = void (v1_right_click_element cfg locator)"
| "run cfg V3_init = void (v3_init cfg)"
| "run cfg V3_launch_application = void (v3_launch_application cfg)"
| "run cfg V3_connect_to_main_window = control (v3_connect_to_main_window cfg)"
| "run cfg (V3_wait_for_element parent locator) =
     control (v3_wait_for_element cfg parent locator)"
| "run cfg (V3_click_element parent locator) = void (v3_click_element cfg parent locator)"
| "run cfg (V3_enter_text parent text locator) =
     void (v3_enter_text cfg parent text locator)"
| "run cfg (V3_set_checkbox parent check locator) =
     void (v3_set_checkbox cfg parent check locator)"
| "run cfg (V3_select_combobox parent v locator) =
     void (v3_select_combobox cfg parent v locator)"


text \<open>Constructing the wrapper \<open>n\<close> times in one process.\<close>

fun constructions :: "(config \<Rightarrow> unit io) \<Rightarrow> config \<Rightarrow> nat \<Rightarrow> state \<Rightarrow> state" where
  "constructions init cfg 0 s = s"
| "constructions init cfg (Suc n) s = constructions init cfg n (snd (init cfg s))"

section \<open>Fixtures\<close>

text \<open>The repository's \<^verbatim>\<open>config.json\<close>.\<close>

definition config_json :: config where
  "config_json =
     \<lparr>application_path = Some ''C:/Program Files/HP/Web Jetadmin/wja.exe'',
      backend = Some ''uia'', default_timeout = Some 20, retry_count = Some 3\<rparr>"

text \<open>A process that has just started, in front of a fake UI tree with the timeline
  \<open>u\<close>: no logger handler yet, every checkbox off, every field empty.\<close>

definition fresh :: "(spec \<Rightarrow> int \<Rightarrow> obs) \<Rightarrow> state" where
  "fresh u =
     \<lparr>app = False, main_window = None, handlers = [], logger_level = WARNING,
      records = [], attachments = [], now = 0, ui = u, installed = (\<lambda>_. True),
      toggle_state = (\<lambda>_. 0), three_state = (\<lambda>_. False), content = (\<lambda>_. []),
      selected = (\<lambda>_. False), items = (\<lambda>_. []), selection = (\<lambda>_. []),
      expanded = (\<lambda>_. False), events = []\<rparr>"

text \<open>Timelines: every control always reports the given flags; every control appears,
  with all its flags, at the tick \<open>t0\<close>; every inspection raises.\<close>

definition always :: "flags \<Rightarrow> spec \<Rightarrow> int \<Rightarrow> obs" where
  "always fl h t = Reports fl"



definition all_flags :: flags where
  "all_flags = \<lparr>f_exists = True, f_enabled = True, f_visible = True\<rparr>"

definition no_flags :: flags where
  "no_flags = \<lparr>f_exists = False, f_enabled = False, f_visible = False\<rparr>"

text \<open>A locator as the scripts write them.\<close>

definition ok_button :: locator where
  "ok_button = [(''title'', ''OK''), (''control_type'', ''Button'')]"

text \<open>The checkbox of the test in \<^verbatim>\<open>3.py\<close>.\<close>

definition critical_agent :: locator where
  "critical_agent =
     [(''title'', ''Critical agent (acknowledgment required for delete)''),
      (''control_type'', ''CheckBox'')]"


section \<open>Predicates of the statements\<close>

text \<open>The control reports every flag of \<open>cs\<close> at the present instant.\<close>

definition reports :: "criterion list \<Rightarrow> spec \<Rightarrow> state \<Rightarrow> bool" where
  "reports cs h s =
     (case ui s h (now s) of Reports fl \<Rightarrow> satisfies cs fl | Raises e \<Rightarrow> False)"

text \<open>From the present instant on, inspecting the control never raises and never reports
  every flag of \<open>cs\<close>.\<close>

definition never_reports :: "criterion list \<Rightarrow> spec \<Rightarrow> state \<Rightarrow> bool" where
  "never_reports cs h s =
     (\<forall>t\<ge>now s. case ui s h t of Reports fl \<Rightarrow> \<not> satisfies cs fl | Raises e \<Rightarrow> False)"

text \<open>From the present instant on, the control never reports every flag of \<open>cs\<close>;
  inspecting it may raise.\<close>

definition never_resolves :: "criterion list \<Rightarrow> spec \<Rightarrow> state \<Rightarrow> bool" where
  "never_resolves cs h s =
     (\<forall>t\<ge>now s. case ui s h t of Reports fl \<Rightarrow> \<not> satisfies cs fl | Raises e \<Rightarrow> True)"

text \<open>How many times the driver toggled the control.\<close>

definition toggles :: "spec \<Rightarrow> state \<Rightarrow> nat" where
  "toggles h s = count_list (events s) (Toggle h)"



text \<open>The keys of the configuration, and the keys that a call reads with
  \<^verbatim>\<open>self.config[...]\<close> before it touches the driver.\<close>

datatype key = Application_path | Backend | Default_timeout | Retry_count

fun absent :: "config \<Rightarrow> key \<Rightarrow> bool" where
  "absent cfg Application_path = (application_path cfg = None)"
| "absent cfg Backend = (backend cfg = None)"
| "absent cfg Default_timeout = (default_timeout cfg = None)"
| "absent cfg Retry_count = (retry_count cfg = None)"

fun looks_up :: "call \<Rightarrow> key list" where
  "looks_up BC_init = [Backend]"
| "looks_up V1_init = [Backend]"
| "looks_up V3_init = [Backend]"
| "looks_up BC_launch_application = [Application_path]"
| "looks_up V1_launch_application = [Application_path, Backend]"
| "looks_up V3_launch_application = [Backend, Application_path]"
| "looks_up (BC_bring_window_to_front window) = []"
| "looks_up (V1_wait_for_element locator timeout) =
     (if timeout = None \<or> timeout = Some 0 then [Default_timeout] else [])"
| "looks_up (V3_wait_for_element parent locator) = []"
| "looks_up (V3_click_element parent locator) = []"
| "looks_up (V3_enter_text parent text locator) = []"
| "looks_up (V3_set_checkbox parent check locator) = []"
| "looks_up (V3_select_combobox parent v locator) = []"
| "looks_up c = [Default_timeout]"


text \<open>A statement changes nothing but the clock, the log and the attachments.\<close>

definition observes :: "'a io \<Rightarrow> bool" where
  "observes m =
     (\<forall>s r s'. m s = (r, s') \<longrightarrow>
        (\<exists>t rs as. s' = s\<lparr>now := t, records := rs, attachments := as\<rparr>))"

text \<open>An except clause that logs one error record and raises what it caught.\<close>

definition logs_and_raises :: "(exn \<Rightarrow> 'a io) \<Rightarrow> bool" where
  "logs_and_raises h =
     (\<forall>e s r s'. h e s = (r, s') \<longrightarrow>
        r = Inl e \<and> (\<exists>msg. records s' = records s @ [(ERROR, msg)]))"


section \<open>Lemmas on the statements and on the driver's wait\<close>

lemma and_then_Inr_iff:
  "and_then m f s = (Inr x, s') \<longleftrightarrow> (\<exists>y s1. m s = (Inr y, s1) \<and> f y s1 = (Inr x, s'))"
  by (auto simp: and_then_def split: prod.splits sum.splits)

lemma and_then_Inl_iff:
  "and_then m f s = (Inl e, s') \<longleftrightarrow>
     m s = (Inl e, s') \<or> (\<exists>y s1. m s = (Inr y, s1) \<and> f y s1 = (Inl e, s'))"
  by (auto simp: and_then_def split: prod.splits sum.splits)

lemma try_except_Inr_iff:
  "try_except b h s = (Inr x, s') \<longleftrightarrow>
     b s = (Inr x, s') \<or> (\<exists>e s1. b s = (Inl e, s1) \<and> h e s1 = (Inr x, s'))"
  by (auto simp: try_except_def split: prod.splits sum.splits)

lemma try_except_Inl_iff:
  "try_except b h s = (Inl e, s') \<longleftrightarrow> (\<exists>e1 s1. b s = (Inl e1, s1) \<and> h e1 s1 = (Inl e, s'))"
  by (auto simp: try_except_def split: prod.splits sum.splits)

lemma poll_bounds: "t \<le> snd (poll line cs t n) \<and> snd (poll line cs t n) \<le> t + int n"
proof (induction n arbitrary: t)
  case 0
  show ?case by (simp split: obs.split)
next
  case (Suc n)
  from Suc.IH [of "t + 1"] show ?case by (simp split: obs.split)
qed

lemma poll_success:
  "poll line cs t n = (None, t') \<Longrightarrow> \<exists>fl. line t' = Reports fl \<and> satisfies cs fl"
  by (induction n arbitrary: t) (auto split: obs.splits if_splits)

lemma poll_now:
  "line t = Reports fl \<Longrightarrow> satisfies cs fl \<Longrightarrow> poll line cs t n = (None, t)"
  by (cases n) simp_all


lemma poll_unsatisfied:
  "(\<forall>t'\<ge>t. case line t' of Reports fl \<Rightarrow> \<not> satisfies cs fl | Raises e \<Rightarrow> True)
   \<Longrightarrow> fst (poll line cs t n) \<noteq> None"
proof (induction n arbitrary: t)
  case 0
  from 0 [rule_format, of t] show ?case by (auto split: obs.splits)
next
  case (Suc n)
  have "fst (poll line cs (t + 1) n) \<noteq> None"
    by (rule Suc.IH) (use Suc.prems in auto)
  with Suc.prems [rule_format, of t] show ?case by (auto split: obs.splits)
qed

lemma wait_frame:
  "wait cs seconds h s = (r, s') \<Longrightarrow>
   \<exists>t. s' = s\<lparr>now := t\<rparr> \<and> now s \<le> t \<and> t \<le> now s + int (nat (2 * seconds))"
  using poll_bounds [of "now s" "ui s h" cs "nat (2 * seconds)"]
  by (auto simp: wait_def split: prod.splits option.splits)

lemma wait_Inr: "wait cs seconds h s = (Inr x, s') \<Longrightarrow> reports cs h s'"
  by (auto simp: wait_def reports_def split: prod.splits option.splits dest: poll_success)

lemma wait_reports_now: "reports cs h s \<Longrightarrow> wait cs seconds h s = (Inr (), s)"
  by (auto simp: wait_def reports_def poll_now split: obs.splits)


declare v3_wait_loop.simps [simp del]

lemma v3_wait_loop_exit:
  "\<not> now s < end_time \<Longrightarrow> v3_wait_loop parent locator end_time s = (None, s)"
  by (subst v3_wait_loop.simps) simp

lemma v3_wait_loop_found:
  "now s < end_time \<Longrightarrow>
   wait [Exists, Ready, Visible] 1 (ChildWindow parent locator) s = (Inr x, s1) \<Longrightarrow>
   v3_wait_loop parent locator end_time s = (Some (ChildWindow parent locator), s1)"
  by (subst v3_wait_loop.simps) simp

lemma v3_wait_loop_retry:
  "now s < end_time \<Longrightarrow>
   wait [Exists, Ready, Visible] 1 (ChildWindow parent locator) s = (Inl e, s1) \<Longrightarrow>
   v3_wait_loop parent locator end_time s =
   v3_wait_loop parent locator end_time (s1\<lparr>now := now s1 + 1\<rparr>)"
  by (subst v3_wait_loop.simps) (simp add: sleep_def)

text \<open>Induction over the iterations of the loop.\<close>

lemma v3_wait_loop_cases [consumes 1, case_names exit found retry]:
  assumes "v3_wait_loop parent locator end_time s = (r, s')"
    and "\<And>s. \<not> now s < end_time \<Longrightarrow> P s None s"
    and "\<And>s x s1. now s < end_time \<Longrightarrow>
           wait [Exists, Ready, Visible] 1 (ChildWindow parent locator) s = (Inr x, s1) \<Longrightarrow>
           P s (Some (ChildWindow parent locator)) s1"
    and "\<And>s e s1 r s'. now s < end_time \<Longrightarrow>
           wait [Exists, Ready, Visible] 1 (ChildWindow parent locator) s = (Inl e, s1) \<Longrightarrow>
           v3_wait_loop parent locator end_time (s1\<lparr>now := now s1 + 1\<rparr>) = (r, s') \<Longrightarrow>
           P (s1\<lparr>now := now s1 + 1\<rparr>) r s' \<Longrightarrow> P s r s'"
  shows "P s r s'"
  using assms(1)
proof (induction "nat (end_time - now s)" arbitrary: s rule: less_induct)
  case less
  show ?case
  proof (cases "now s < end_time")
    case False
    with less.prems have "r = None" "s' = s" by (simp_all add: v3_wait_loop_exit)
    with False show ?thesis by (simp add: assms(2))
  next
    case True
    obtain x s1 where w: "wait [Exists, Ready, Visible] 1 (ChildWindow parent locator) s = (x, s1)"
      by (cases "wait [Exists, Ready, Visible] 1 (ChildWindow parent locator) s")
    show ?thesis
    proof (cases x)
      case (Inr u)
      with True w less.prems have "r = Some (ChildWindow parent locator)" "s' = s1"
        by (simp_all add: v3_wait_loop_found)
      with True w Inr show ?thesis by (simp add: assms(3))
    next
      case (Inl e)
      with True w less.prems
      have l: "v3_wait_loop parent locator end_time (s1\<lparr>now := now s1 + 1\<rparr>) = (r, s')"
        by (simp add: v3_wait_loop_retry)
      from wait_frame [OF w] have "now s \<le> now s1" by auto
      with True have "nat (end_time - now (s1\<lparr>now := now s1 + 1\<rparr>)) < nat (end_time - now s)"
        by simp
      from less.hyps [OF this l] have "P (s1\<lparr>now := now s1 + 1\<rparr>) r s'" .
      with True w Inl l show ?thesis by (auto intro: assms(4))
    qed
  qed
qed

lemma v3_wait_loop_frame:
  assumes "v3_wait_loop parent locator end_time s = (r, s')"
  shows "\<exists>t. s' = s\<lparr>now := t\<rparr> \<and> now s \<le> t"
  using assms
proof (induction rule: v3_wait_loop_cases)
  case (exit s)
  have "s = s\<lparr>now := now s\<rparr>" by simp
  then show ?case by blast
next
  case (found s x s1)
  from wait_frame [OF found(2)] show ?case by auto
next
  case (retry s e s1 r s')
  from wait_frame [OF retry(2)] obtain t where "s1 = s\<lparr>now := t\<rparr>" "now s \<le> t" by auto
  moreover from retry(4) obtain t' where "s' = s1\<lparr>now := now s1 + 1, now := t'\<rparr>" "now s1 + 1 \<le> t'"
    by auto
  ultimately have "s' = s\<lparr>now := t'\<rparr> \<and> now s \<le> t'" by simp
  then show ?case by blast
qed

text \<open>The loop returns a control only from a successful wait, which ends at a tick where
  the control reports the three requested flags.\<close>

lemma v3_wait_loop_Some:
  assumes "v3_wait_loop parent locator end_time s = (r, s')" and "r = Some el"
  shows "el = ChildWindow parent locator \<and> reports [Exists, Ready, Visible] el s'"
  using assms
proof (induction rule: v3_wait_loop_cases)
  case (found s x s1)
  from wait_Inr [OF found(2)] found(3) show ?case by auto
qed auto

text \<open>The loop gives up only when the deadline has passed, and no iteration ends more
  than two ticks after the deadline.\<close>

lemma v3_wait_loop_None:
  assumes "v3_wait_loop parent locator end_time s = (r, s')" and "r = None"
  shows "end_time \<le> now s'"
  using assms by (induction rule: v3_wait_loop_cases) auto

lemma v3_wait_loop_upper:
  assumes "v3_wait_loop parent locator end_time s = (r, s')" and "now s \<le> end_time + 2"
  shows "now s' \<le> end_time + 2"
  using assms
proof (induction rule: v3_wait_loop_cases)
  case (found s x s1)
  from wait_frame [OF found(2)] found(1) show ?case by auto
next
  case (retry s e s1 r s')
  from wait_frame [OF retry(2)] retry(1) have "now (s1\<lparr>now := now s1 + 1\<rparr>) \<le> end_time + 2"
    by auto
  then show ?case by (rule retry(4))
qed auto

lemma v3_wait_loop_now:
  "now s < end_time \<Longrightarrow> reports [Exists, Ready, Visible] (ChildWindow parent locator) s \<Longrightarrow>
   v3_wait_loop parent locator end_time s = (Some (ChildWindow parent locator), s)"
  by (rule v3_wait_loop_found) (simp_all add: wait_reports_now)

lemma ret_eq [simp]: "ret x s = (r, s') \<longleftrightarrow> r = Inr x \<and> s' = s"
  by (auto simp: ret_def)

lemma raise_eq [simp]: "raise e s = (r, s') \<longleftrightarrow> r = Inl e \<and> s' = s"
  by (auto simp: raise_def)

lemma lookup_eq [simp]:
  "lookup v s = (r, s') \<longleftrightarrow> s' = s \<and> r = (case v of None \<Rightarrow> Inl KeyError | Some x \<Rightarrow> Inr x)"
  by (auto simp: lookup_def split: option.splits)

lemma get_main_window_eq [simp]:
  "get_main_window s = (r, s') \<longleftrightarrow>
     s' = s \<and> r = (case main_window s of None \<Rightarrow> Inl AttributeError | Some w \<Rightarrow> Inr w)"
  by (auto simp: get_main_window_def split: option.splits)

lemma emit_eq:
  "emit lvl msg s = (r, s') \<longleftrightarrow>
     r = Inr () \<and> s' = (if rank (logger_level s) \<le> rank lvl
                         then s\<lparr>records := records s @ [(lvl, msg)]\<rparr> else s)"
  by (auto simp: emit_def)

lemma reports_records [simp]: "reports cs h (s\<lparr>records := rs\<rparr>) = reports cs h s"
  by (simp add: reports_def)

lemma reports_attachments [simp]: "reports cs h (s\<lparr>attachments := rs\<rparr>) = reports cs h s"
  by (simp add: reports_def)

lemma logger_info_reports:
  "logger_info msg s = (r, s') \<Longrightarrow> r = Inr () \<and> reports cs h s' = reports cs h s"
  by (auto simp: logger_info_def emit_eq)

lemma bc_wait_for_element_Inr:
  assumes "bc_wait_for_element cfg parent locator s = (Inr el, s')"
  shows "el = ChildWindow parent locator \<and> reports [Exists, Enabled, Visible, Ready] el s'"
  using assms
  by (auto simp: bc_wait_for_element_def bc_wait_for_element_try_def try_except_Inr_iff and_then_Inr_iff and_then_Inl_iff
        Let_def split: option.splits dest!: wait_Inr logger_info_reports)

lemma v1_wait_for_element_Inr:
  assumes "v1_wait_for_element cfg locator timeout s = (Inr el, s')"
  shows "(\<exists>main. main_window s = Some main \<and> el = ChildWindow main locator) \<and>
         reports [Exists, Enabled, Visible, Ready] el s'"
  using assms
  by (auto simp: v1_wait_for_element_def v1_wait_for_element_try_def try_except_Inr_iff and_then_Inr_iff and_then_Inl_iff
        Let_def split: option.splits if_splits dest!: wait_Inr logger_info_reports)

lemma v3_wait_for_element_Inr:
  assumes "v3_wait_for_element cfg parent locator s = (Inr el, s')"
  shows "el = ChildWindow parent locator \<and> reports [Exists, Ready, Visible] el s'"
  using assms
  by (auto simp: v3_wait_for_element_def and_then_Inr_iff Let_def
        split: option.splits prod.splits dest: v3_wait_loop_Some)

lemma never_reports_records [simp]: "never_reports cs h (s\<lparr>records := rs\<rparr>) = never_reports cs h s"
  by (simp add: never_reports_def)

lemmas run_defs = and_then_def try_except_def logger_info_def logger_error_def
  logger_warning_def emit_def attach_def lookup_def get_main_window_def ret_def raise_def
  Let_def

lemma bc_wait_for_element_now:
  assumes "default_timeout cfg = Some t"
    and "reports [Exists, Enabled, Visible, Ready] (ChildWindow parent locator) s"
  shows "fst (bc_wait_for_element cfg parent locator s) = Inr (ChildWindow parent locator)"
    and "now (snd (bc_wait_for_element cfg parent locator s)) = now s"
  using assms by (simp_all add: bc_wait_for_element_def bc_wait_for_element_try_def run_defs wait_reports_now)



lemma v3_wait_for_element_now:
  assumes "default_timeout cfg = Some t" and "0 < t"
    and "reports [Exists, Ready, Visible] (ChildWindow parent locator) s"
  shows "v3_wait_for_element cfg parent locator s = (Inr (ChildWindow parent locator), s)"
  using assms by (simp add: v3_wait_for_element_def v3_wait_loop_now)

lemma v3_wait_loop_unsatisfied:
  assumes "v3_wait_loop parent locator end_time s = (r, s')"
    and "\<forall>t\<ge>now s. case ui s (ChildWindow parent locator) t of
                      Reports fl \<Rightarrow> \<not> satisfies [Exists, Ready, Visible] fl | Raises e \<Rightarrow> True"
  shows "r = None"
proof (cases r)
  case (Some el)
  from v3_wait_loop_Some [OF assms(1) Some] v3_wait_loop_frame [OF assms(1)] assms(2)
  show ?thesis by (auto simp: reports_def split: obs.splits)
qed simp


lemma v1_wait_for_element_now:
  assumes "timeout = Some t \<and> t \<noteq> 0 \<or> (timeout = None \<or> timeout = Some 0) \<and> default_timeout cfg = Some t"
    and "main_window s = Some main"
    and "reports [Exists, Enabled, Visible, Ready] (ChildWindow main locator) s"
  shows "fst (v1_wait_for_element cfg locator timeout s) = Inr (ChildWindow main locator)"
    and "now (snd (v1_wait_for_element cfg locator timeout s)) = now s"
  using assms by (auto simp add: v1_wait_for_element_def v1_wait_for_element_try_def run_defs wait_reports_now)

lemma v3_wait_for_element_unsatisfied:
  assumes "\<forall>t\<ge>now s. case ui s (ChildWindow parent locator) t of
                      Reports fl \<Rightarrow> \<not> satisfies [Exists, Ready, Visible] fl | Raises e \<Rightarrow> True"
  shows "fst (v3_wait_for_element cfg parent locator s) = Inl TimeoutError"
proof -
  define end_time where "end_time = now s + 2 * (case default_timeout cfg of None \<Rightarrow> 20 | Some t \<Rightarrow> t)"
  obtain r s' where l: "v3_wait_loop parent locator end_time s = (r, s')"
    by (cases "v3_wait_loop parent locator end_time s")
  from v3_wait_loop_unsatisfied [OF l assms] have "r = None" .
  with l show ?thesis
    by (simp add: v3_wait_for_element_def end_time_def run_defs)
qed

lemma never_reports_unsatisfied:
  "never_reports cs h s \<Longrightarrow>
   \<forall>t\<ge>now s. case ui s h t of Reports fl \<Rightarrow> \<not> satisfies cs fl | Raises e \<Rightarrow> True"
  by (auto simp: never_reports_def split: obs.splits)

lemma v3_wait_for_element_clock:
  fixes cfg parent locator s
  defines "t \<equiv> (case default_timeout cfg of None \<Rightarrow> 20 | Some t \<Rightarrow> t)"
  assumes "fst (v3_wait_for_element cfg parent locator s) = Inl e"
  shows "now s + 2 * t \<le> now (snd (v3_wait_for_element cfg parent locator s))"
    and "now (snd (v3_wait_for_element cfg parent locator s)) \<le> now s + 2 * max 0 t + 2"
proof -
  obtain r s' where l: "v3_wait_loop parent locator (now s + 2 * t) s = (r, s')"
    by (cases "v3_wait_loop parent locator (now s + 2 * t) s")
  with assms(2) have r: "r = None"
    by (cases r) (simp_all add: v3_wait_for_element_def t_def)
  have s': "now (snd (v3_wait_for_element cfg parent locator s)) = now s'"
    using l r by (simp add: v3_wait_for_element_def t_def run_defs)
  from v3_wait_loop_None [OF l r] s'
  show "now s + 2 * t \<le> now (snd (v3_wait_for_element cfg parent locator s))" by simp
  show "now (snd (v3_wait_for_element cfg parent locator s)) \<le> now s + 2 * max 0 t + 2"
  proof (cases "0 \<le> t")
    case True
    then have "now s \<le> now s + 2 * t + 2" by simp
    from v3_wait_loop_upper [OF l this] s' True show ?thesis by simp
  next
    case False
    then have "\<not> now s < now s + 2 * t" by simp
    from v3_wait_loop_exit [OF this] l have "s' = s" by simp
    with s' False show ?thesis by simp
  qed
qed

lemma satisfies_three_of_four:
  "satisfies [Exists, Enabled, Visible, Ready] fl \<Longrightarrow> satisfies [Exists, Ready, Visible] fl"
  by (simp add: satisfies_def)


lemma reports_three:
  "reports [Exists, Enabled, Visible, Ready] h s \<Longrightarrow> reports [Exists, Ready, Visible] h s"
  by (auto simp: reports_def satisfies_def split: obs.splits)

text \<open>The wait string of \<^verbatim>\<open>3.py\<close> asks for as much as the wait string of the two other
  variants.\<close>

lemma reports_four:
  "reports [Exists, Ready, Visible] h s \<Longrightarrow> reports [Exists, Enabled, Visible, Ready] h s"
  by (auto simp: reports_def satisfies_def split: obs.splits)

text \<open>The outcome of a statement, apart from its effect.\<close>

lemma fst_and_then:
  "fst (and_then m f s) = (case fst (m s) of Inl e \<Rightarrow> Inl e | Inr x \<Rightarrow> fst (f x (snd (m s))))"
  by (simp add: and_then_def case_prod_unfold split: sum.splits)

lemma fst_try_except:
  "fst (try_except b h s) = (case fst (b s) of Inl e \<Rightarrow> fst (h e (snd (b s))) | Inr x \<Rightarrow> Inr x)"
  by (simp add: try_except_def case_prod_unfold split: sum.splits)

lemma fst_statements:
  "fst (ret x s) = Inr x"
  "fst (raise e s) = Inl e"
  "fst (lookup v s) = (case v of None \<Rightarrow> Inl KeyError | Some y \<Rightarrow> Inr y)"
  "fst (logger_info msg s) = Inr ()"
  "fst (logger_warning msg s) = Inr ()"
  "fst (logger_error msg s) = Inr ()"
  "fst (attach name s) = Inr ()"
  "fst (set_app s) = Inr ()"
  "fst (set_main_window w s) = Inr ()"
  "fst (get_logger s) = Inr ()"
  by (simp_all add: run_defs set_app_def set_main_window_def get_logger_def split: option.splits)

lemmas fst_simps = fst_and_then fst_try_except fst_statements

lemma void_fst: "fst (void m s) = (case fst (m s) of Inl e \<Rightarrow> Inl e | Inr x \<Rightarrow> Inr Nothing)"
  by (simp add: void_def fst_simps split: sum.splits)

lemma control_fst: "fst (control m s) = (case fst (m s) of Inl e \<Rightarrow> Inl e | Inr x \<Rightarrow> Inr (Control x))"
  by (simp add: control_def fst_simps split: sum.splits)

section \<open>The configured retry count\<close>

lemma bc_wait_for_element_retry_count:
  "bc_wait_for_element (cfg\<lparr>retry_count := r\<rparr>) = bc_wait_for_element cfg"
  by (simp add: bc_wait_for_element_def bc_wait_for_element_try_def fun_eq_iff)

lemma v1_wait_for_element_retry_count:
  "v1_wait_for_element (cfg\<lparr>retry_count := r\<rparr>) = v1_wait_for_element cfg"
  by (simp add: v1_wait_for_element_def v1_wait_for_element_try_def fun_eq_iff split: option.split)

lemma v3_wait_for_element_retry_count:
  "v3_wait_for_element (cfg\<lparr>retry_count := r\<rparr>) = v3_wait_for_element cfg"
  by (simp add: v3_wait_for_element_def fun_eq_iff)

lemma v3_connect_to_main_window_retry_count:
  "v3_connect_to_main_window (cfg\<lparr>retry_count := r\<rparr>) = v3_connect_to_main_window cfg"
  by (simp add: v3_connect_to_main_window_def v3_connect_to_main_window_try_def fun_eq_iff)

lemmas op_defs =
  bc_init_def bc_launch_application_def bc_launch_application_try_def bc_connect_to_main_window_def bc_connect_to_main_window_try_def
  bc_click_element_def bc_click_element_try_def bc_enter_text_def bc_enter_text_try_def bc_right_click_element_def bc_right_click_element_try_def
  bc_select_context_menu_def bc_select_context_menu_try_def bc_wizard_next_def bc_wizard_next_try_def bc_wizard_finish_def bc_wizard_finish_try_def
  bc_bring_window_to_front_def bc_bring_window_to_front_try_def
  v1_init_def v1_launch_application_def v1_launch_application_try_def v1_connect_to_main_window_def v1_connect_to_main_window_try_def
  v1_click_element_def v1_click_element_try_def v1_enter_text_def v1_enter_text_try_def v1_expand_tree_item_def v1_expand_tree_item_try_def
  v1_right_click_element_def v1_right_click_element_try_def
  v3_init_def v3_launch_application_def v3_launch_application_try_def v3_click_element_def v3_click_element_try_def v3_enter_text_def v3_enter_text_try_def
  v3_set_checkbox_def v3_set_checkbox_try_def v3_select_combobox_def v3_select_combobox_try_def

text \<open>
  Claim C8. Two configurations that differ only in the value of \<^verbatim>\<open>retry_count\<close> give, for
  every call of every facade operation of the three variants and from every state, the
  same result (returned value or exception raised) and the same final state.
\<close>

theorem retry_count_is_not_consulted:
  "run (cfg\<lparr>retry_count := r\<rparr>) c = run cfg c"
  by (cases c)
     (simp_all add: op_defs bc_wait_for_element_retry_count v1_wait_for_element_retry_count
        v3_wait_for_element_retry_count v3_connect_to_main_window_retry_count)

theorem retry_count_is_not_consulted_witness:
  "run (config_json\<lparr>retry_count := Some 7\<rparr>) (V3_click_element (Window []) [(''title'', ''OK'')])
     (fresh (always all_flags))
   = run config_json (V3_click_element (Window []) [(''title'', ''OK'')])
       (fresh (always all_flags))"
  by (simp only: retry_count_is_not_consulted [where cfg = config_json and r = "Some 7"])

section \<open>Readiness of the control that wait_for_element returns\<close>

lemma reports_always [simp]: "reports cs h (fresh (always fl)) = satisfies cs fl"
  by (simp add: reports_def fresh_def always_def)

lemma reports_main_window [simp]: "reports cs h (s\<lparr>main_window := w\<rparr>) = reports cs h s"
  by (simp add: reports_def)

text \<open>
  Claim C1. In each of the three variants, \<^verbatim>\<open>wait_for_element\<close> returns a control only
  at an instant where that control meets the four criteria exists, enabled, visible and
  ready at once; the control is the one that the locator gives under the parent (in
  \<^verbatim>\<open>1.py\<close>, under the main window).
\<close>

theorem wait_for_element_flags:
  "(bc_wait_for_element cfg parent locator s = (Inr el, s') \<longrightarrow>
      el = ChildWindow parent locator \<and> reports [Exists, Enabled, Visible, Ready] el s') \<and>
   (v1_wait_for_element cfg locator timeout s = (Inr el, s') \<longrightarrow>
      reports [Exists, Enabled, Visible, Ready] el s' \<and>
      (main_window s = Some parent \<longrightarrow> el = ChildWindow parent locator)) \<and>
   (v3_wait_for_element cfg parent locator s = (Inr el, s') \<longrightarrow>
      el = ChildWindow parent locator \<and> reports [Exists, Enabled, Visible, Ready] el s')"
proof (intro conjI impI)
  assume "bc_wait_for_element cfg parent locator s = (Inr el, s')"
  from bc_wait_for_element_Inr [OF this]
  show "el = ChildWindow parent locator" "reports [Exists, Enabled, Visible, Ready] el s'"
    by blast+
next
  assume a: "v1_wait_for_element cfg locator timeout s = (Inr el, s')"
  from v1_wait_for_element_Inr [OF a]
  show "reports [Exists, Enabled, Visible, Ready] el s'" by blast
  assume "main_window s = Some parent"
  with v1_wait_for_element_Inr [OF a] show "el = ChildWindow parent locator" by auto
next
  assume a: "v3_wait_for_element cfg parent locator s = (Inr el, s')"
  from v3_wait_for_element_Inr [OF a]
  show "el = ChildWindow parent locator" by blast
  from v3_wait_for_element_Inr [OF a]
  show "reports [Exists, Enabled, Visible, Ready] el s'" by (blast intro: reports_four)
qed

theorem wait_for_element_flags_witness:
  "reports [Exists, Enabled, Visible, Ready] (ChildWindow web_jetadmin ok_button)
     (snd (bc_wait_for_element config_json web_jetadmin ok_button (fresh (always all_flags)))) \<and>
   reports [Exists, Enabled, Visible, Ready] (ChildWindow web_jetadmin ok_button)
     (snd (v1_wait_for_element config_json ok_button None
            ((fresh (always all_flags))\<lparr>main_window := Some web_jetadmin\<rparr>))) \<and>
   reports [Exists, Enabled, Visible, Ready] (ChildWindow web_jetadmin ok_button)
     (snd (v3_wait_for_element config_json web_jetadmin ok_button (fresh (always all_flags))))"
proof -
  let ?s = "fresh (always all_flags)"
  let ?el = "ChildWindow web_jetadmin ok_button"
  have r: "reports [Exists, Enabled, Visible, Ready] ?el ?s"
    by (simp add: satisfies_def all_flags_def)
  have c: "default_timeout config_json = Some 20" by (simp add: config_json_def)
  have 1: "bc_wait_for_element config_json web_jetadmin ok_button ?s
           = (Inr ?el, snd (bc_wait_for_element config_json web_jetadmin ok_button ?s))"
    using bc_wait_for_element_now(1) [OF c r] by (simp add: prod_eq_iff)
  have 2: "v1_wait_for_element config_json ok_button None (?s\<lparr>main_window := Some web_jetadmin\<rparr>)
           = (Inr ?el, snd (v1_wait_for_element config_json ok_button None
                              (?s\<lparr>main_window := Some web_jetadmin\<rparr>)))"
    using v1_wait_for_element_now(1) [of None 20 config_json "?s\<lparr>main_window := Some web_jetadmin\<rparr>"
        web_jetadmin ok_button] c r
    by (simp add: prod_eq_iff)
  have 3: "v3_wait_for_element config_json web_jetadmin ok_button ?s
           = (Inr ?el, snd (v3_wait_for_element config_json web_jetadmin ok_button ?s))"
    using v3_wait_for_element_now [OF c _ reports_three [OF r]] by simp
  from wait_for_element_flags [where cfg = config_json and parent = web_jetadmin
      and locator = ok_button and s = ?s and el = ?el
      and s' = "snd (bc_wait_for_element config_json web_jetadmin ok_button ?s)"] 1
  have a: "reports [Exists, Enabled, Visible, Ready] ?el
             (snd (bc_wait_for_element config_json web_jetadmin ok_button ?s))" by blast
  from wait_for_element_flags [where cfg = config_json and parent = web_jetadmin
      and locator = ok_button and timeout = None and el = ?el
      and s = "?s\<lparr>main_window := Some web_jetadmin\<rparr>"
      and s' = "snd (v1_wait_for_element config_json ok_button None
                      (?s\<lparr>main_window := Some web_jetadmin\<rparr>))"] 2
  have b: "reports [Exists, Enabled, Visible, Ready] ?el
             (snd (v1_wait_for_element config_json ok_button None
                (?s\<lparr>main_window := Some web_jetadmin\<rparr>)))" by blast
  from wait_for_element_flags [where cfg = config_json and parent = web_jetadmin
      and locator = ok_button and s = ?s and el = ?el
      and s' = "snd (v3_wait_for_element config_json web_jetadmin ok_button ?s)"] 3
  have c: "reports [Exists, Enabled, Visible, Ready] ?el
             (snd (v3_wait_for_element config_json web_jetadmin ok_button ?s))" by blast
  from a b c show ?thesis by blast
qed

section \<open>The polling wait and the blocking wait\<close>


lemma v3_wait_for_element_never_resolves:
  assumes "never_resolves [Exists, Ready, Visible] (ChildWindow parent locator) s"
  shows "fst (v3_wait_for_element cfg parent locator s) = Inl TimeoutError"
  using assms unfolding never_resolves_def by (rule v3_wait_for_element_unsatisfied)



lemma never_reports_always [simp]:
  "never_reports cs h (fresh (always fl)) = (\<not> satisfies cs fl)"
  by (auto simp: never_reports_def fresh_def always_def)

lemma never_reports_main_window [simp]:
  "never_reports cs h (s\<lparr>main_window := w\<rparr>) = never_reports cs h s"
  by (simp add: never_reports_def)






section \<open>When wait_for_element times out\<close>



lemma never_resolves_always [simp]:
  "never_resolves cs h (fresh (always fl)) = (\<not> satisfies cs fl)"
  by (auto simp: never_resolves_def fresh_def always_def)



section \<open>Failures of the facade operations\<close>



























text \<open>The handlers of the scripts.\<close>

lemma rank_le_error: "rank lvl \<le> 40"
  by (cases lvl) simp_all

lemma logs_and_raises_error: "logs_and_raises (\<lambda>e. and_then (logger_error msg) (\<lambda>_. raise e))"
  by (auto simp: logs_and_raises_def and_then_def logger_error_def emit_def rank_le_error)

lemma logs_and_raises_attach:
  "logs_and_raises (\<lambda>e. and_then (logger_error msg) (\<lambda>_. and_then (attach name) (\<lambda>_. raise e)))"
  by (auto simp: logs_and_raises_def and_then_def logger_error_def emit_def attach_def
        rank_le_error)

lemma logs_and_raises_if:
  "logs_and_raises a \<Longrightarrow> logs_and_raises b \<Longrightarrow> logs_and_raises (\<lambda>e. if c e then a e else b e)"
  by (auto simp: logs_and_raises_def)

lemmas logs_and_raises_intros = logs_and_raises_error logs_and_raises_attach logs_and_raises_if



lemma try_except_propagates:
  assumes "logs_and_raises h" and "try_except body h s = (r, s')"
  shows "(\<exists>s1. body s = (r, s1)) "
  using assms by (cases r) (auto simp: try_except_Inl_iff try_except_Inr_iff logs_and_raises_def)


















section \<open>The logger\<close>

lemma get_logger_handlers:
  "handlers (snd (get_logger s)) = (if handlers s = [] then [StreamHandler] else handlers s)"
  by (simp add: get_logger_def)

lemma get_logger_twice: "snd (get_logger (snd (get_logger s))) = snd (get_logger s)"
  by (simp add: get_logger_def)

lemma init_handlers:
  assumes "init = bc_init \<or> init = v1_init \<or> init = v3_init" and "backend cfg \<noteq> None"
  shows "fst (init cfg s) = Inr ()"
    and "handlers (snd (init cfg s)) = (if handlers s = [] then [StreamHandler] else handlers s)"
  using assms
  by (auto simp: bc_init_def v1_init_def v3_init_def run_defs get_logger_def)

lemma constructions_handlers:
  assumes "init = bc_init \<or> init = v1_init \<or> init = v3_init" and "backend cfg \<noteq> None"
    and "handlers s = [StreamHandler]"
  shows "handlers (constructions init cfg n s) = [StreamHandler]"
  using assms(3)
proof (induction n arbitrary: s)
  case 0
  then show ?case by simp
next
  case (Suc n)
  from Suc.prems init_handlers(2) [OF assms(1,2), of s]
  have "handlers (snd (init cfg s)) = [StreamHandler]" by simp
  then show ?case by (simp add: Suc.IH)
qed

text \<open>
  Claim C6. In a process whose logger has no handler yet, constructing the wrapper of any
  of the three variants once or more, from a configuration that has the \<^verbatim>\<open>backend\<close> key
  the constructor reads, leaves the logger with exactly one stream handler; and a second
  call of \<^verbatim>\<open>_get_logger\<close> changes nothing that the first call left, from any state.
\<close>

theorem logger_initialisation_is_idempotent:
  assumes "init = bc_init \<or> init = v1_init \<or> init = v3_init"
    and "backend cfg \<noteq> None" and "handlers s = []"
  shows "handlers (constructions init cfg (Suc n) s) = [StreamHandler] \<and>
         snd (get_logger (snd (get_logger s))) = snd (get_logger s)"
proof -
  from assms(3) init_handlers(2) [OF assms(1,2), of s]
  have "handlers (snd (init cfg s)) = [StreamHandler]" by simp
  from constructions_handlers [OF assms(1,2) this] show ?thesis
    by (simp add: get_logger_twice)
qed

theorem logger_initialisation_is_idempotent_witness:
  "handlers (constructions bc_init config_json 3 (fresh (always all_flags))) = [StreamHandler] \<and>
   handlers (fresh (always all_flags)) = []"
proof -
  have 1: "bc_init = bc_init \<or> bc_init = v1_init \<or> bc_init = v3_init" by simp
  have 2: "backend config_json \<noteq> None" by (simp add: config_json_def)
  have 3: "handlers (fresh (always all_flags)) = []" by (simp add: fresh_def)
  from logger_initialisation_is_idempotent [OF 1 2 3, of 2] 3 show ?thesis
    by (simp add: numeral_3_eq_3)
qed

section \<open>Missing keys of the configuration\<close>

lemma bc_wait_for_element_KeyError:
  "default_timeout cfg = None \<Longrightarrow> fst (bc_wait_for_element cfg parent locator s) = Inl KeyError"
  by (simp add: bc_wait_for_element_def bc_wait_for_element_try_def fst_simps Let_def)

lemma v1_wait_for_element_KeyError:
  "default_timeout cfg = None \<Longrightarrow> timeout = None \<or> timeout = Some 0 \<Longrightarrow>
   fst (v1_wait_for_element cfg locator timeout s) = Inl KeyError"
  by (auto simp add: v1_wait_for_element_def v1_wait_for_element_try_def fst_simps)

lemma v3_connect_KeyError:
  "default_timeout cfg = None \<Longrightarrow> fst (v3_connect_to_main_window cfg s) = Inl KeyError"
  by (simp add: v3_connect_to_main_window_def v3_connect_to_main_window_try_def fst_simps Let_def)

lemma v3_wait_for_element_default:
  "v3_wait_for_element (cfg\<lparr>default_timeout := None\<rparr>)
   = v3_wait_for_element (cfg\<lparr>default_timeout := Some 20\<rparr>)"
  by (simp add: v3_wait_for_element_def fun_eq_iff)

text \<open>
  Claim C7, as amended. A call that reads a key with \<^verbatim>\<open>self.config[...]\<close> raises
  \<^verbatim>\<open>KeyError\<close> when the key is absent: \<^verbatim>\<open>backend\<close> in the constructors and in
  \<^verbatim>\<open>launch_application\<close> of \<^verbatim>\<open>1.py\<close> and \<^verbatim>\<open>3.py\<close>, \<^verbatim>\<open>application_path\<close> in
  \<^verbatim>\<open>launch_application\<close>, \<^verbatim>\<open>default_timeout\<close> in \<^verbatim>\<open>connect_to_main_window\<close> and in the
  operations built on \<^verbatim>\<open>wait_for_element\<close> of \<^verbatim>\<open>base_class.py\<close> and \<^verbatim>\<open>1.py\<close>. Constructing
  the wrapper succeeds whenever \<^verbatim>\<open>backend\<close> is present, whatever else is absent. The
  exception is \<^verbatim>\<open>wait_for_element\<close> of \<^verbatim>\<open>3.py\<close>, which behaves under an absent
  \<^verbatim>\<open>default_timeout\<close> exactly as under a \<^verbatim>\<open>default_timeout\<close> of 20.
\<close>

theorem missing_key_is_a_lookup_error_at_first_use:
  "(k \<in> set (looks_up c) \<and> absent cfg k \<longrightarrow> fst (run cfg c s) = Inl KeyError) \<and>
   (\<not> absent cfg Backend \<and> (c = BC_init \<or> c = V1_init \<or> c = V3_init) \<longrightarrow>
      fst (run cfg c s) = Inr Nothing) \<and>
   v3_wait_for_element (cfg\<lparr>default_timeout := None\<rparr>)
     = v3_wait_for_element (cfg\<lparr>default_timeout := Some 20\<rparr>)"
proof (intro conjI impI)
  assume "k \<in> set (looks_up c) \<and> absent cfg k"
  then show "fst (run cfg c s) = Inl KeyError"
    by (cases c; cases k)
       (auto simp: void_fst control_fst op_defs fst_simps Let_def
          bc_wait_for_element_KeyError v1_wait_for_element_KeyError v3_connect_KeyError
          split: if_splits option.splits)
next
  assume "\<not> absent cfg Backend \<and> (c = BC_init \<or> c = V1_init \<or> c = V3_init)"
  then show "fst (run cfg c s) = Inr Nothing"
    by (auto simp: void_fst op_defs fst_simps)
next
  show "v3_wait_for_element (cfg\<lparr>default_timeout := None\<rparr>)
        = v3_wait_for_element (cfg\<lparr>default_timeout := Some 20\<rparr>)"
    by (rule v3_wait_for_element_default)
qed

theorem missing_key_is_a_lookup_error_at_first_use_witness:
  "fst (run (config_json\<lparr>default_timeout := None\<rparr>) (BC_click_element web_jetadmin ok_button)
         (fresh (always all_flags))) = Inl KeyError \<and>
   fst (run (config_json\<lparr>default_timeout := None\<rparr>) BC_init (fresh (always all_flags)))
     = Inr Nothing"
proof -
  let ?cfg = "config_json\<lparr>default_timeout := None\<rparr>"
  have 1: "Default_timeout \<in> set (looks_up (BC_click_element web_jetadmin ok_button)) \<and>
           absent ?cfg Default_timeout"
    by simp
  have 2: "\<not> absent ?cfg Backend \<and> (BC_init = BC_init \<or> BC_init = V1_init \<or> BC_init = V3_init)"
    by (simp add: config_json_def)
  from missing_key_is_a_lookup_error_at_first_use
         [where cfg = ?cfg and k = Default_timeout and s = "fresh (always all_flags)"
            and c = "BC_click_element web_jetadmin ok_button"] 1
       missing_key_is_a_lookup_error_at_first_use
         [where cfg = ?cfg and s = "fresh (always all_flags)" and c = BC_init] 2
  show ?thesis by blast
qed

text \<open>Without the key \<^verbatim>\<open>default_timeout\<close>, \<^verbatim>\<open>wait_for_element\<close> of \<^verbatim>\<open>3.py\<close> returns a ready
  control, and on a control that is never ready it raises \<^verbatim>\<open>TimeoutError\<close> no sooner than
  40 ticks, that is 20 seconds, after the invocation: no lookup error at the operation
  that uses the key, and a default value in its place.\<close>

theorem polling_wait_substitutes_twenty_seconds:
  "default_timeout (config_json\<lparr>default_timeout := None\<rparr>) = None \<and>
   fst (run (config_json\<lparr>default_timeout := None\<rparr>) (V3_wait_for_element web_jetadmin ok_button)
         (fresh (always all_flags))) = Inr (Control (ChildWindow web_jetadmin ok_button)) \<and>
   fst (run (config_json\<lparr>default_timeout := None\<rparr>) (V3_wait_for_element web_jetadmin ok_button)
         (fresh (always no_flags))) = Inl TimeoutError \<and>
   40 \<le> now (snd (run (config_json\<lparr>default_timeout := None\<rparr>)
                    (V3_wait_for_element web_jetadmin ok_button) (fresh (always no_flags))))"
proof -
  let ?cfg = "config_json\<lparr>default_timeout := None\<rparr>"
  let ?el = "ChildWindow web_jetadmin ok_button"
  have r: "reports [Exists, Ready, Visible] ?el (fresh (always all_flags))"
    by (simp add: satisfies_def all_flags_def)
  have "v3_wait_for_element (config_json\<lparr>default_timeout := Some 20\<rparr>) web_jetadmin ok_button
          (fresh (always all_flags)) = (Inr ?el, fresh (always all_flags))"
    by (rule v3_wait_for_element_now [where t = 20, OF _ _ r]) simp_all
  then have 1: "fst (run ?cfg (V3_wait_for_element web_jetadmin ok_button) (fresh (always all_flags)))
                = Inr (Control ?el)"
    by (simp add: control_fst v3_wait_for_element_default)
  have n: "never_resolves [Exists, Ready, Visible] ?el (fresh (always no_flags))"
    by (simp add: satisfies_def no_flags_def)
  have f: "fst (v3_wait_for_element ?cfg web_jetadmin ok_button (fresh (always no_flags)))
           = Inl TimeoutError"
    by (rule v3_wait_for_element_never_resolves [OF n])
  then have 2: "fst (run ?cfg (V3_wait_for_element web_jetadmin ok_button) (fresh (always no_flags)))
                = Inl TimeoutError"
    by (simp add: control_fst)
  from v3_wait_for_element_clock(1) [OF f]
  have "40 \<le> now (snd (v3_wait_for_element ?cfg web_jetadmin ok_button (fresh (always no_flags))))"
    by (simp add: fresh_def)
  moreover have "now (snd (run ?cfg (V3_wait_for_element web_jetadmin ok_button) (fresh (always no_flags))))
                 = now (snd (v3_wait_for_element ?cfg web_jetadmin ok_button (fresh (always no_flags))))"
    by (simp add: control_def and_then_def ret_def case_prod_unfold split: sum.splits)
  ultimately show ?thesis using 1 2 by simp
qed

section \<open>set_checkbox\<close>

lemma reports_cong:
  "ui s' = ui s \<Longrightarrow> now s' = now s \<Longrightarrow> reports cs h s' = reports cs h s"
  by (simp add: reports_def)

lemma reports_exists:
  "reports cs h s \<Longrightarrow> Exists \<in> set cs \<Longrightarrow> \<exists>fl. ui s h (now s) = Reports fl \<and> f_exists fl"
  by (auto simp: reports_def satisfies_def list_all_iff split: obs.splits)

lemma perform_exists:
  "reports cs h s \<Longrightarrow> Exists \<in> set cs \<Longrightarrow>
   perform h ev upd s = (Inr (), upd (s\<lparr>events := events s @ [ev]\<rparr>))"
  by (auto simp: perform_def dest!: reports_exists)

lemma query_exists:
  "reports cs h s \<Longrightarrow> Exists \<in> set cs \<Longrightarrow> query h f s = (Inr (f s), s)"
  by (auto simp: query_def dest!: reports_exists)

lemma logger_info_frame: "\<exists>rs. logger_info msg s = (Inr (), s\<lparr>records := rs\<rparr>)"
proof (cases "rank (logger_level s) \<le> rank INFO")
  case True
  then have "logger_info msg s = (Inr (), s\<lparr>records := records s @ [(INFO, msg)]\<rparr>)"
    by (simp add: logger_info_def emit_def)
  then show ?thesis by blast
next
  case False
  then have "logger_info msg s = (Inr (), s\<lparr>records := records s\<rparr>)"
    by (simp add: logger_info_def emit_def)
  then show ?thesis by blast
qed

lemma v3_wait_for_element_effect:
  assumes "v3_wait_for_element cfg parent locator s = (r, s')"
  shows "\<exists>t rs. s' = s\<lparr>now := t, records := rs\<rparr> \<and> now s \<le> t"
    and "r = Inl TimeoutError \<or>
         r = Inr (ChildWindow parent locator) \<and>
         reports [Exists, Ready, Visible] (ChildWindow parent locator) s'"
proof -
  define end_time where "end_time = now s + 2 * (case default_timeout cfg of None \<Rightarrow> 20 | Some t \<Rightarrow> t)"
  obtain x s1 where l: "v3_wait_loop parent locator end_time s = (x, s1)"
    by (cases "v3_wait_loop parent locator end_time s")
  from v3_wait_loop_frame [OF l] obtain t where t: "s1 = s\<lparr>now := t\<rparr>" "now s \<le> t" by auto
  show "\<exists>t rs. s' = s\<lparr>now := t, records := rs\<rparr> \<and> now s \<le> t"
  proof (cases x)
    case None
    with assms l t have "s' = s\<lparr>now := t, records := records s'\<rparr>"
      by (auto simp: v3_wait_for_element_def end_time_def run_defs split: if_splits)
    with t show ?thesis by blast
  next
    case (Some el)
    with assms l t have "s' = s\<lparr>now := t, records := records s\<rparr>"
      by (auto simp: v3_wait_for_element_def end_time_def)
    with t show ?thesis by blast
  qed
  show "r = Inl TimeoutError \<or>
        r = Inr (ChildWindow parent locator) \<and>
        reports [Exists, Ready, Visible] (ChildWindow parent locator) s'"
  proof (cases r)
    case (Inl e)
    with assms l show ?thesis
      by (cases x) (auto simp: v3_wait_for_element_def end_time_def run_defs split: if_splits)
  next
    case (Inr el)
    with assms v3_wait_for_element_Inr [of cfg parent locator s el s'] show ?thesis by auto
  qed
qed

text \<open>What \<^verbatim>\<open>set_checkbox\<close> does, in full: it fails only when the wait times out, and then
  nothing was done; otherwise it focuses the control and toggles it exactly when it found
  the state opposite to the desired one.\<close>

lemma v3_set_checkbox_effect:
  assumes "v3_set_checkbox cfg parent check locator s = (r, s')"
  defines "el \<equiv> ChildWindow parent locator"
  defines "needed \<equiv> (check \<and> toggle_state s el = 0) \<or> (\<not> check \<and> toggle_state s el = 1)"
  shows "(r = Inl TimeoutError \<and> events s' = events s \<and> toggle_state s' = toggle_state s) \<or>
         (r = Inr () \<and> reports [Exists, Ready, Visible] el s' \<and>
          events s' = events s @ SetFocus el # (if needed then [Toggle el] else []) \<and>
          toggle_state s' =
            (if needed
             then (toggle_state s)(el := next_toggle_state (three_state s el) (toggle_state s el))
             else toggle_state s))"
    and "three_state s' = three_state s \<and> ui s' = ui s \<and> now s \<le> now s'"
    and "isl r = isl (fst (v3_wait_for_element cfg parent locator s))"
proof -
  obtain x s1 where w: "v3_wait_for_element cfg parent locator s = (x, s1)"
    by (cases "v3_wait_for_element cfg parent locator s")
  from v3_wait_for_element_effect(1) [OF w] obtain t rs
    where s1: "s1 = s\<lparr>now := t, records := rs\<rparr>" "now s \<le> t" by auto
  from v3_wait_for_element_effect(2) [OF w]
  have "(r = Inl TimeoutError \<and> events s' = events s \<and> toggle_state s' = toggle_state s
         \<and> three_state s' = three_state s \<and> ui s' = ui s \<and> now s \<le> now s' \<and> isl x) \<or>
        (r = Inr () \<and> reports [Exists, Ready, Visible] el s' \<and>
          events s' = events s @ SetFocus el # (if needed then [Toggle el] else []) \<and>
          toggle_state s' =
            (if needed
             then (toggle_state s)(el := next_toggle_state (three_state s el) (toggle_state s el))
             else toggle_state s)
         \<and> three_state s' = three_state s \<and> ui s' = ui s \<and> now s \<le> now s' \<and> \<not> isl x)"
  proof
    assume x: "x = Inl TimeoutError"
    with assms(1) w s1 show ?thesis
      by (auto simp: v3_set_checkbox_def v3_set_checkbox_try_def try_except_def and_then_def logger_error_def emit_def
            raise_def rank_le_error)
  next
    assume x: "x = Inr (ChildWindow parent locator) \<and>
               reports [Exists, Ready, Visible] (ChildWindow parent locator) s1"
    then have r1: "reports [Exists, Ready, Visible] el s1" by (simp add: el_def)
    have f: "set_focus el s1 = (Inr (), s1\<lparr>events := events s1 @ [SetFocus el]\<rparr>)"
      unfolding set_focus_def by (rule perform_exists [OF r1]) simp
    let ?s2 = "s1\<lparr>events := events s1 @ [SetFocus el]\<rparr>"
    have r2: "reports [Exists, Ready, Visible] el ?s2"
      using r1 by (simp add: reports_def)
    have g: "get_toggle_state el ?s2 = (Inr (toggle_state s el), ?s2)"
      unfolding get_toggle_state_def using query_exists [OF r2, of "\<lambda>s. toggle_state s el"] s1
      by simp
    have tg: "toggle el ?s2 =
              (Inr (), ?s2\<lparr>events := events ?s2 @ [Toggle el],
                            toggle_state := (toggle_state s)
                              (el := next_toggle_state (three_state s el) (toggle_state s el))\<rparr>)"
      unfolding toggle_def using perform_exists [OF r2, of "Toggle el"] s1 by simp
    show ?thesis
    proof (cases needed)
      case True
      let ?s3 = "?s2\<lparr>events := events ?s2 @ [Toggle el],
                       toggle_state := (toggle_state s)
                         (el := next_toggle_state (three_state s el) (toggle_state s el))\<rparr>"
      obtain rs' where i: "logger_info (if check then ''Checkbox set to checked.''
                             else ''Checkbox set to unchecked.'') ?s3 = (Inr (), ?s3\<lparr>records := rs'\<rparr>)"
        using logger_info_frame by blast
      from True have c: "(check \<and> toggle_state s el = 0) \<or> (\<not> check \<and> toggle_state s el = 1)"
        by (simp add: needed_def)
      have "v3_set_checkbox cfg parent check locator s = (Inr (), ?s3\<lparr>records := rs'\<rparr>)"
        unfolding v3_set_checkbox_def v3_set_checkbox_try_def try_except_def and_then_def
        using w x f g tg i c by (auto simp: el_def)
      with assms(1) have "r = Inr ()" "s' = ?s3\<lparr>records := rs'\<rparr>" by simp_all
      with True s1 r1 x show ?thesis by (simp add: reports_def)
    next
      case False
      obtain rs' where i: "logger_info ''Checkbox already in desired state.'' ?s2
                           = (Inr (), ?s2\<lparr>records := rs'\<rparr>)"
        using logger_info_frame by blast
      from False have c: "\<not> ((check \<and> toggle_state s el = 0) \<or> (\<not> check \<and> toggle_state s el = 1))"
        by (simp add: needed_def)
      have "v3_set_checkbox cfg parent check locator s = (Inr (), ?s2\<lparr>records := rs'\<rparr>)"
        unfolding v3_set_checkbox_def v3_set_checkbox_try_def try_except_def and_then_def
        using w x f g i c by (auto simp: el_def)
      with assms(1) have "r = Inr ()" "s' = ?s2\<lparr>records := rs'\<rparr>" by simp_all
      with False s1 r1 x show ?thesis by (simp add: reports_def)
    qed
  qed
  then show "(r = Inl TimeoutError \<and> events s' = events s \<and> toggle_state s' = toggle_state s) \<or>
         (r = Inr () \<and> reports [Exists, Ready, Visible] el s' \<and>
          events s' = events s @ SetFocus el # (if needed then [Toggle el] else []) \<and>
          toggle_state s' =
            (if needed
             then (toggle_state s)(el := next_toggle_state (three_state s el) (toggle_state s el))
             else toggle_state s))"
    and "three_state s' = three_state s \<and> ui s' = ui s \<and> now s \<le> now s'"
    and "isl r = isl (fst (v3_wait_for_element cfg parent locator s))"
    using w by auto
qed

lemma v3_wait_for_element_ready:
  assumes "0 < (case default_timeout cfg of None \<Rightarrow> 20 | Some t \<Rightarrow> t)"
    and "reports [Exists, Ready, Visible] (ChildWindow parent locator) s"
  shows "v3_wait_for_element cfg parent locator s = (Inr (ChildWindow parent locator), s)"
  using assms by (simp add: v3_wait_for_element_def v3_wait_loop_now)

lemma v3_wait_for_element_positive:
  assumes "fst (v3_wait_for_element cfg parent locator s) = Inr el"
  shows "0 < (case default_timeout cfg of None \<Rightarrow> 20 | Some t \<Rightarrow> t)"
proof (rule ccontr)
  assume "\<not> 0 < (case default_timeout cfg of None \<Rightarrow> 20 | Some t \<Rightarrow> t)"
  then have "\<not> now s < now s + 2 * (case default_timeout cfg of None \<Rightarrow> 20 | Some t \<Rightarrow> t)"
    by simp
  from v3_wait_loop_exit [OF this] assms show False
    by (simp add: v3_wait_for_element_def run_defs)
qed

lemma toggles_append [simp]:
  "toggles h (s\<lparr>events := events s @ evs\<rparr>) = toggles h s + count_list evs (Toggle h)"
  by (simp add: toggles_def)

lemma toggles_events: "events s' = events s @ evs \<Longrightarrow> toggles h s' = toggles h s + count_list evs (Toggle h)"
  by (simp add: toggles_def)

text \<open>
  Claim C5, as amended. When \<^verbatim>\<open>set_checkbox\<close> has succeeded and is called again with the
  same arguments, the second call performs no toggle, whatever it returns; the first call
  performed exactly one toggle when it found the checkbox in the state opposite to the
  desired one (0 for \<^verbatim>\<open>check=True\<close>, 1 for \<^verbatim>\<open>check=False\<close>), and none otherwise.
\<close>

theorem set_checkbox_twice:
  assumes "v3_set_checkbox cfg parent check locator s = (Inr (), s1)"
    and "v3_set_checkbox cfg parent check locator s1 = (r2, s2)"
  shows "toggles (ChildWindow parent locator) s2 = toggles (ChildWindow parent locator) s1 \<and>
         toggles (ChildWindow parent locator) s1 =
           toggles (ChildWindow parent locator) s +
           (if (check \<and> toggle_state s (ChildWindow parent locator) = 0) \<or>
               (\<not> check \<and> toggle_state s (ChildWindow parent locator) = 1)
            then 1 else 0)"
proof -
  let ?el = "ChildWindow parent locator"
  let ?needed = "(check \<and> toggle_state s ?el = 0) \<or> (\<not> check \<and> toggle_state s ?el = 1)"
  from v3_set_checkbox_effect(1) [OF assms(1)]
  have e1: "events s1 = events s @ SetFocus ?el # (if ?needed then [Toggle ?el] else [])"
    and t1: "toggle_state s1 =
             (if ?needed
              then (toggle_state s)(?el := next_toggle_state (three_state s ?el) (toggle_state s ?el))
              else toggle_state s)"
    by auto
  have n2: "\<not> ((check \<and> toggle_state s1 ?el = 0) \<or> (\<not> check \<and> toggle_state s1 ?el = 1))"
    using t1 by (auto simp: next_toggle_state_def split: if_splits)
  from v3_set_checkbox_effect(1) [OF assms(2)] n2
  have "events s2 = events s1 \<or> events s2 = events s1 @ [SetFocus ?el]"
    by auto
  then have "toggles ?el s2 = toggles ?el s1"
    by (auto simp: toggles_def)
  with toggles_events [OF e1, of ?el] show ?thesis by simp
qed

text \<open>
  Claim C9. When the toggle state of the checkbox is neither 0 nor 1, \<^verbatim>\<open>set_checkbox\<close>
  performs no toggle, for \<^verbatim>\<open>check=True\<close> and for \<^verbatim>\<open>check=False\<close>, and leaves every toggle
  state as it was, whatever it returns; and it returns normally when the checkbox is
  ready at the call and the timeout is positive.
\<close>

theorem set_checkbox_leaves_an_indeterminate_checkbox:
  assumes "toggle_state s (ChildWindow parent locator) \<noteq> 0"
    and "toggle_state s (ChildWindow parent locator) \<noteq> 1"
    and "v3_set_checkbox cfg parent check locator s = (r, s')"
  shows "toggles (ChildWindow parent locator) s' = toggles (ChildWindow parent locator) s \<and>
         toggle_state s' = toggle_state s \<and>
         (0 < (case default_timeout cfg of None \<Rightarrow> 20 | Some t \<Rightarrow> t) \<and>
          reports [Exists, Ready, Visible] (ChildWindow parent locator) s \<longrightarrow> r = Inr ())"
proof -
  let ?el = "ChildWindow parent locator"
  from v3_set_checkbox_effect(1) [OF assms(3)] assms(1,2)
  have "(r = Inl TimeoutError \<and> events s' = events s \<and> toggle_state s' = toggle_state s) \<or>
        (r = Inr () \<and> events s' = events s @ [SetFocus ?el] \<and> toggle_state s' = toggle_state s)"
    by auto
  then have a: "toggles ?el s' = toggles ?el s" "toggle_state s' = toggle_state s"
    "r = Inr () \<or> r = Inl TimeoutError"
    by (auto simp: toggles_def)
  have "r = Inr ()"
    if "0 < (case default_timeout cfg of None \<Rightarrow> 20 | Some t \<Rightarrow> t) \<and>
        reports [Exists, Ready, Visible] ?el s"
    using v3_wait_for_element_ready [of cfg parent locator s] v3_set_checkbox_effect(3) [OF assms(3)]
      that a(3)
    by auto
  with a show ?thesis by blast
qed

lemma v3_set_checkbox_ready:
  assumes "0 < (case default_timeout cfg of None \<Rightarrow> 20 | Some t \<Rightarrow> t)"
    and "reports [Exists, Ready, Visible] (ChildWindow parent locator) s"
  shows "fst (v3_set_checkbox cfg parent check locator s) = Inr ()"
    and "reports [Exists, Ready, Visible] (ChildWindow parent locator)
           (snd (v3_set_checkbox cfg parent check locator s))"
    and "events (snd (v3_set_checkbox cfg parent check locator s)) =
           events s @ SetFocus (ChildWindow parent locator) #
             (if (check \<and> toggle_state s (ChildWindow parent locator) = 0) \<or>
                 (\<not> check \<and> toggle_state s (ChildWindow parent locator) = 1)
              then [Toggle (ChildWindow parent locator)] else [])"
    and "toggle_state (snd (v3_set_checkbox cfg parent check locator s)) =
           (if (check \<and> toggle_state s (ChildWindow parent locator) = 0) \<or>
               (\<not> check \<and> toggle_state s (ChildWindow parent locator) = 1)
            then (toggle_state s)(ChildWindow parent locator :=
                   next_toggle_state (three_state s (ChildWindow parent locator))
                     (toggle_state s (ChildWindow parent locator)))
            else toggle_state s)"
proof -
  have c: "v3_set_checkbox cfg parent check locator s
           = (fst (v3_set_checkbox cfg parent check locator s),
              snd (v3_set_checkbox cfg parent check locator s))"
    by simp
  from v3_set_checkbox_effect(3) [OF c] v3_wait_for_element_ready [OF assms]
  have "\<not> isl (fst (v3_set_checkbox cfg parent check locator s))" by simp
  with v3_set_checkbox_effect(1) [OF c]
  show "fst (v3_set_checkbox cfg parent check locator s) = Inr ()"
    and "reports [Exists, Ready, Visible] (ChildWindow parent locator)
           (snd (v3_set_checkbox cfg parent check locator s))"
    and "events (snd (v3_set_checkbox cfg parent check locator s)) =
           events s @ SetFocus (ChildWindow parent locator) #
             (if (check \<and> toggle_state s (ChildWindow parent locator) = 0) \<or>
                 (\<not> check \<and> toggle_state s (ChildWindow parent locator) = 1)
              then [Toggle (ChildWindow parent locator)] else [])"
    and "toggle_state (snd (v3_set_checkbox cfg parent check locator s)) =
           (if (check \<and> toggle_state s (ChildWindow parent locator) = 0) \<or>
               (\<not> check \<and> toggle_state s (ChildWindow parent locator) = 1)
            then (toggle_state s)(ChildWindow parent locator :=
                   next_toggle_state (three_state s (ChildWindow parent locator))
                     (toggle_state s (ChildWindow parent locator)))
            else toggle_state s)"
    by auto
qed

lemma reports_toggle_state [simp]: "reports cs h (s\<lparr>toggle_state := ts\<rparr>) = reports cs h s"
  by (simp add: reports_def)

lemma config_json_timeout: "0 < (case default_timeout config_json of None \<Rightarrow> 20 | Some t \<Rightarrow> t)"
  by (simp add: config_json_def)

lemma all_flags_three: "satisfies [Exists, Ready, Visible] all_flags"
  by (simp add: satisfies_def all_flags_def)

theorem set_checkbox_twice_witness:
  "fst (v3_set_checkbox config_json web_jetadmin True critical_agent (fresh (always all_flags)))
     = Inr () \<and>
   fst (v3_set_checkbox config_json web_jetadmin True critical_agent
          (snd (v3_set_checkbox config_json web_jetadmin True critical_agent
                  (fresh (always all_flags))))) = Inr () \<and>
   toggles (ChildWindow web_jetadmin critical_agent)
     (snd (v3_set_checkbox config_json web_jetadmin True critical_agent
             (snd (v3_set_checkbox config_json web_jetadmin True critical_agent
                     (fresh (always all_flags)))))) = 1"
proof -
  let ?s = "fresh (always all_flags)"
  let ?s1 = "snd (v3_set_checkbox config_json web_jetadmin True critical_agent ?s)"
  let ?s2 = "snd (v3_set_checkbox config_json web_jetadmin True critical_agent ?s1)"
  have r: "reports [Exists, Ready, Visible] (ChildWindow web_jetadmin critical_agent) ?s"
    by (simp add: all_flags_three)
  note f = v3_set_checkbox_ready(1) [OF config_json_timeout r, of True]
  then have 1: "v3_set_checkbox config_json web_jetadmin True critical_agent ?s = (Inr (), ?s1)"
    by (simp add: prod_eq_iff)
  have 2: "v3_set_checkbox config_json web_jetadmin True critical_agent ?s1
           = (fst (v3_set_checkbox config_json web_jetadmin True critical_agent ?s1), ?s2)"
    by simp
  have 3: "toggles (ChildWindow web_jetadmin critical_agent) ?s = 0"
          "toggle_state ?s (ChildWindow web_jetadmin critical_agent) = 0"
    by (simp_all add: toggles_def fresh_def)
  note g = v3_set_checkbox_ready(1)
             [OF config_json_timeout v3_set_checkbox_ready(2) [OF config_json_timeout r, of True],
              of True]
  from set_checkbox_twice [OF 1 2] f g 3 show ?thesis by simp
qed

text \<open>On a checkbox that is already checked (toggle state 1), two successful calls of
  \<^verbatim>\<open>set_checkbox\<close> with \<^verbatim>\<open>check=True\<close> perform no toggle at all, not one.\<close>

theorem set_checkbox_twice_on_a_checked_box_never_toggles:
  "toggle_state ((fresh (always all_flags))\<lparr>toggle_state := \<lambda>h. 1\<rparr>)
     (ChildWindow web_jetadmin critical_agent) = 1 \<and>
   fst (v3_set_checkbox config_json web_jetadmin True critical_agent
          ((fresh (always all_flags))\<lparr>toggle_state := \<lambda>h. 1\<rparr>)) = Inr () \<and>
   fst (v3_set_checkbox config_json web_jetadmin True critical_agent
          (snd (v3_set_checkbox config_json web_jetadmin True critical_agent
                  ((fresh (always all_flags))\<lparr>toggle_state := \<lambda>h. 1\<rparr>)))) = Inr () \<and>
   toggles (ChildWindow web_jetadmin critical_agent)
     (snd (v3_set_checkbox config_json web_jetadmin True critical_agent
             (snd (v3_set_checkbox config_json web_jetadmin True critical_agent
                     ((fresh (always all_flags))\<lparr>toggle_state := \<lambda>h. 1\<rparr>))))) = 0"
proof -
  let ?el = "ChildWindow web_jetadmin critical_agent"
  let ?s = "(fresh (always all_flags))\<lparr>toggle_state := \<lambda>h. 1\<rparr>"
  let ?s1 = "snd (v3_set_checkbox config_json web_jetadmin True critical_agent ?s)"
  let ?s2 = "snd (v3_set_checkbox config_json web_jetadmin True critical_agent ?s1)"
  have r: "reports [Exists, Ready, Visible] ?el ?s"
    by (simp add: all_flags_three)
  note a = v3_set_checkbox_ready [OF config_json_timeout r, of True]
  from a(4) have t1: "toggle_state ?s1 ?el = 1" by simp
  from a(3) have e1: "events ?s1 = [SetFocus ?el]" by (simp add: fresh_def)
  note b = v3_set_checkbox_ready [OF config_json_timeout a(2), of True]
  from b(3) t1 e1 have "events ?s2 = [SetFocus ?el, SetFocus ?el]" by simp
  then have "toggles ?el ?s2 = 0" by (simp add: toggles_def)
  with a(1) b(1) show ?thesis by simp
qed

theorem set_checkbox_leaves_an_indeterminate_checkbox_witness:
  "fst (v3_set_checkbox config_json web_jetadmin True critical_agent
          ((fresh (always all_flags))\<lparr>toggle_state := \<lambda>h. 2\<rparr>)) = Inr () \<and>
   toggles (ChildWindow web_jetadmin critical_agent)
     (snd (v3_set_checkbox config_json web_jetadmin True critical_agent
             ((fresh (always all_flags))\<lparr>toggle_state := \<lambda>h. 2\<rparr>))) = 0 \<and>
   toggle_state
     (snd (v3_set_checkbox config_json web_jetadmin True critical_agent
             ((fresh (always all_flags))\<lparr>toggle_state := \<lambda>h. 2\<rparr>)))
     (ChildWindow web_jetadmin critical_agent) = 2"
proof -
  let ?el = "ChildWindow web_jetadmin critical_agent"
  let ?s = "(fresh (always all_flags))\<lparr>toggle_state := \<lambda>h. 2\<rparr>"
  let ?c = "v3_set_checkbox config_json web_jetadmin True critical_agent ?s"
  have 1: "toggle_state ?s ?el \<noteq> 0" "toggle_state ?s ?el \<noteq> 1" by simp_all
  have 2: "?c = (fst ?c, snd ?c)" by simp
  have 3: "0 < (case default_timeout config_json of None \<Rightarrow> 20 | Some t \<Rightarrow> t) \<and>
           reports [Exists, Ready, Visible] ?el ?s"
    by (simp add: config_json_timeout all_flags_three)
  have 4: "toggles ?el ?s = 0" by (simp add: toggles_def fresh_def)
  from set_checkbox_leaves_an_indeterminate_checkbox [OF 1 2] 3 4 show ?thesis by simp
qed

section \<open>enter_text\<close>

declare press.simps [simp del]

lemma press_Nil [simp]: "press ws [] field = field"
  by (subst press.simps) simp

lemma press_select_all [simp]:
  "press ws (CHR ''^'' # CHR ''a'' # rest) field = press ws rest (fst field, True)"
  by (subst press.simps) simp

lemma press_backspace [simp]:
  "press ws (CHR ''{'' # CHR ''B'' # CHR ''A'' # CHR ''C'' # CHR ''K'' # CHR ''S'' # CHR ''P'' #
             CHR ''A'' # CHR ''C'' # CHR ''E'' # CHR ''}'' # rest) field
   = press ws rest (if snd field then [] else butlast (fst field), False)"
  by (subst press.simps) simp









text \<open>Statements that change nothing but the clock, the log and the attachments.\<close>

lemma observesI:
  "(\<And>s r s'. m s = (r, s') \<Longrightarrow> \<exists>t rs as. s' = s\<lparr>now := t, records := rs, attachments := as\<rparr>)
   \<Longrightarrow> observes m"
  by (auto simp: observes_def)















lemma observes_v3_wait_for_element: "observes (v3_wait_for_element cfg parent locator)"
proof (rule observesI)
  fix s r s'
  assume "v3_wait_for_element cfg parent locator s = (r, s')"
  from v3_wait_for_element_effect(1) [OF this] obtain t rs
    where "s' = s\<lparr>now := t, records := rs\<rparr>" by auto
  then have "s' = s\<lparr>now := t, records := rs, attachments := attachments s\<rparr>" by simp
  then show "\<exists>t rs as. s' = s\<lparr>now := t, records := rs, attachments := as\<rparr>" by blast
qed











lemma reports_content [simp]: "reports cs h (s\<lparr>content := c\<rparr>) = reports cs h s"
  by (simp add: reports_def)





end
